theory Spec2Isabelle
  imports Complex_Main
begin

section \<open>TileBoundingS2Cell: a six-plane bounding volume and its queries\<close>

text \<open>
  The development embeds \<^verbatim>\<open>Source/Scene/TileBoundingS2Cell.js\<close>. JavaScript
  numbers are modelled as exact reals: every statement below is about the arithmetic
  the code writes down, not about IEEE rounding. Exceptions are values of a sum type.
\<close>

subsection \<open>Errors\<close>

text \<open>
  \<open>TypeError\<close>: a component of \<^verbatim>\<open>undefined\<close> is read (or a property of it).
  \<open>NotANumber\<close>: a zero vector is normalised; JavaScript yields NaN components, which
  a real cannot hold.
\<close>

datatype error = TypeError | NotANumber

subsection \<open>Cartesian3\<close>

record Cartesian3 =
  x :: real
  y :: real
  z :: real

text \<open>
  Modelled from the spec: the vector algebra of Core/Cartesian3.js (GeometryPrimitives),
  which is not among the sources: \<open>add\<close>, \<open>subtract\<close>, \<open>multiplyByScalar\<close>,
  \<open>negate\<close>, \<open>dot\<close>, \<open>cross\<close>, \<open>magnitudeSquared\<close>, \<open>magnitude\<close>,
  \<open>distance\<close> and \<open>normalize\<close>. Normalising the zero vector divides by 0; the
  model returns \<open>NotANumber\<close> there.
\<close>

definition Cartesian3_add :: "Cartesian3 \<Rightarrow> Cartesian3 \<Rightarrow> Cartesian3" where
  "Cartesian3_add left right =
     \<lparr>x = x left + x right, y = y left + y right, z = z left + z right\<rparr>"

definition Cartesian3_subtract :: "Cartesian3 \<Rightarrow> Cartesian3 \<Rightarrow> Cartesian3" where
  "Cartesian3_subtract left right =
     \<lparr>x = x left - x right, y = y left - y right, z = z left - z right\<rparr>"

definition Cartesian3_multiplyByScalar :: "Cartesian3 \<Rightarrow> real \<Rightarrow> Cartesian3" where
  "Cartesian3_multiplyByScalar c s = \<lparr>x = x c * s, y = y c * s, z = z c * s\<rparr>"

definition Cartesian3_negate :: "Cartesian3 \<Rightarrow> Cartesian3" where
  "Cartesian3_negate c = \<lparr>x = - x c, y = - y c, z = - z c\<rparr>"

definition Cartesian3_dot :: "Cartesian3 \<Rightarrow> Cartesian3 \<Rightarrow> real" where
  "Cartesian3_dot left right = x left * x right + y left * y right + z left * z right"

definition Cartesian3_cross :: "Cartesian3 \<Rightarrow> Cartesian3 \<Rightarrow> Cartesian3" where
  "Cartesian3_cross left right =
     \<lparr>x = y left * z right - z left * y right,
      y = z left * x right - x left * z right,
      z = x left * y right - y left * x right\<rparr>"

definition Cartesian3_magnitudeSquared :: "Cartesian3 \<Rightarrow> real" where
  "Cartesian3_magnitudeSquared c = x c * x c + y c * y c + z c * z c"

definition Cartesian3_magnitude :: "Cartesian3 \<Rightarrow> real" where
  "Cartesian3_magnitude c = sqrt (Cartesian3_magnitudeSquared c)"

definition Cartesian3_distance :: "Cartesian3 \<Rightarrow> Cartesian3 \<Rightarrow> real" where
  "Cartesian3_distance left right = Cartesian3_magnitude (Cartesian3_subtract left right)"

definition Cartesian3_normalize :: "Cartesian3 \<Rightarrow> error + Cartesian3" where
  "Cartesian3_normalize c =
     (let magnitude = Cartesian3_magnitude c
      in if magnitude = 0 then Inl NotANumber
         else Inr \<lparr>x = x c / magnitude, y = y c / magnitude, z = z c / magnitude\<rparr>)"

subsection \<open>Plane\<close>

record Plane =
  normal :: Cartesian3
  distance :: real

text \<open>
  Modelled from the spec: the plane helpers of Core/Plane.js. The signed distance of a
  point is \<open>dot(normal, point) + distance\<close>; a plane through a point has
  \<open>distance = - dot(normal, point)\<close>; the projection removes the signed distance along
  the normal.
\<close>

definition Plane_fromPointNormal :: "Cartesian3 \<Rightarrow> Cartesian3 \<Rightarrow> Plane" where
  "Plane_fromPointNormal point n = \<lparr>normal = n, distance = - Cartesian3_dot n point\<rparr>"

definition Plane_getPointDistance :: "Plane \<Rightarrow> Cartesian3 \<Rightarrow> real" where
  "Plane_getPointDistance plane point = Cartesian3_dot (normal plane) point + distance plane"

definition Plane_projectPointOntoPlane :: "Plane \<Rightarrow> Cartesian3 \<Rightarrow> Cartesian3" where
  "Plane_projectPointOntoPlane plane point =
     (let pointDistance = Plane_getPointDistance plane point;
          scaledNormal = Cartesian3_multiplyByScalar (normal plane) pointDistance
      in Cartesian3_subtract point scaledNormal)"

text \<open>Modelled from the spec: Core/Math.js, \<open>greaterThan\<close> and the tolerance \<open>EPSILON14\<close>.\<close>

definition EPSILON14 :: real where
  "EPSILON14 = 1 / 10 ^ 14"

definition CesiumMath_greaterThan :: "real \<Rightarrow> real \<Rightarrow> real \<Rightarrow> bool" where
  "CesiumMath_greaterThan left right absoluteEpsilon \<longleftrightarrow> left - right > absoluteEpsilon"

subsection \<open>Intersection of three planes\<close>

text \<open>
  Modelled from the spec: \<open>Matrix3.determinant\<close> of Core/Matrix3.js, on the matrix
  whose rows are the nine constructor arguments in row-major order.
\<close>

definition Matrix3_determinant ::
  "real \<times> real \<times> real \<times> real \<times> real \<times> real \<times> real \<times> real \<times> real \<Rightarrow> real" where
  "Matrix3_determinant m =
     (case m of (m11, m12, m13, m21, m22, m23, m31, m32, m33) \<Rightarrow>
        m11 * (m22 * m33 - m23 * m32) + m12 * (m23 * m31 - m21 * m33)
        + m13 * (m21 * m32 - m22 * m31))"

definition normalMatrix :: "Plane \<Rightarrow> Plane \<Rightarrow> Plane \<Rightarrow>
    real \<times> real \<times> real \<times> real \<times> real \<times> real \<times> real \<times> real \<times> real" where
  "normalMatrix p0 p1 p2 =
     (x (normal p0), y (normal p0), z (normal p0),
      x (normal p1), y (normal p1), z (normal p1),
      x (normal p2), y (normal p2), z (normal p2))"

definition computeIntersection :: "Plane \<Rightarrow> Plane \<Rightarrow> Plane \<Rightarrow> Cartesian3" where
  "computeIntersection p0 p1 p2 =
     (let n0 = normal p0; n1 = normal p1; n2 = normal p2;
          x0 = Cartesian3_multiplyByScalar (normal p0) (- distance p0);
          x1 = Cartesian3_multiplyByScalar (normal p1) (- distance p1);
          x2 = Cartesian3_multiplyByScalar (normal p2) (- distance p2);
          f0 = Cartesian3_multiplyByScalar (Cartesian3_cross n1 n2) (Cartesian3_dot x0 n0);
          f1 = Cartesian3_multiplyByScalar (Cartesian3_cross n2 n0) (Cartesian3_dot x1 n1);
          f2 = Cartesian3_multiplyByScalar (Cartesian3_cross n0 n1) (Cartesian3_dot x2 n2);
          determinant = Matrix3_determinant (normalMatrix p0 p1 p2);
          s = Cartesian3_add (Cartesian3_add f0 f1) f2
      in \<lparr>x = x s / determinant, y = y s / determinant, z = z s / determinant\<rparr>)"

text \<open>
  The spec's words for the intersection: the sum over \<open>k\<close> of
  \<open>cross(normal_{k+1}, normal_{k+2})\<close> scaled by \<open>dot(x_k, normal_k)\<close>, with
  \<open>x_k = - distance_k * normal_k\<close>, divided by the determinant.
\<close>

definition intersectionFormula :: "Plane \<Rightarrow> Plane \<Rightarrow> Plane \<Rightarrow> Cartesian3" where
  "intersectionFormula p0 p1 p2 =
     (let x0 = Cartesian3_multiplyByScalar (normal p0) (- distance p0);
          x1 = Cartesian3_multiplyByScalar (normal p1) (- distance p1);
          x2 = Cartesian3_multiplyByScalar (normal p2) (- distance p2);
          D = Matrix3_determinant (normalMatrix p0 p1 p2)
      in Cartesian3_multiplyByScalar
           (Cartesian3_add
              (Cartesian3_add
                 (Cartesian3_multiplyByScalar (Cartesian3_cross (normal p1) (normal p2))
                    (Cartesian3_dot x0 (normal p0)))
                 (Cartesian3_multiplyByScalar (Cartesian3_cross (normal p2) (normal p0))
                    (Cartesian3_dot x1 (normal p1))))
              (Cartesian3_multiplyByScalar (Cartesian3_cross (normal p0) (normal p1))
                 (Cartesian3_dot x2 (normal p2))))
           (1 / D))"

subsection \<open>Closest point of a segment\<close>

definition closestPointLineSegment :: "Cartesian3 \<Rightarrow> Cartesian3 \<Rightarrow> Cartesian3 \<Rightarrow> Cartesian3" where
  "closestPointLineSegment p l0 l1 =
     (let d = Cartesian3_subtract l1 l0;
          pL0 = Cartesian3_subtract p l0;
          t = Cartesian3_dot d pL0
      in if t \<le> 0 then l0
         else let dMag = Cartesian3_dot d d
              in if t \<ge> dMag then l1
                 else let t = t / dMag
                      in \<lparr>x = (1 - t) * x l0 + t * x l1,
                          y = (1 - t) * y l0 + t * y l1,
                          z = (1 - t) * z l0 + t * z l1\<rparr>)"

text \<open>
  The spec's words for the same point: the projection parameter
  \<open>t = dot(p - l0, l1 - l0) / |l1 - l0|^2\<close> clamped to \<open>[0, 1]\<close>, and the point
  \<open>l0 + t * (l1 - l0)\<close> of the segment.
\<close>

definition segmentPoint :: "Cartesian3 \<Rightarrow> Cartesian3 \<Rightarrow> real \<Rightarrow> Cartesian3" where
  "segmentPoint l0 l1 t =
     Cartesian3_add l0 (Cartesian3_multiplyByScalar (Cartesian3_subtract l1 l0) t)"

definition clampedParameter :: "Cartesian3 \<Rightarrow> Cartesian3 \<Rightarrow> Cartesian3 \<Rightarrow> real" where
  "clampedParameter p l0 l1 =
     max 0 (min 1 (Cartesian3_dot (Cartesian3_subtract p l0) (Cartesian3_subtract l1 l0)
                   / Cartesian3_magnitudeSquared (Cartesian3_subtract l1 l0)))"

subsection \<open>External collaborators of the plane builder\<close>

text \<open>
  Ellipsoid geodesy and the cell's geometry are outside the core; the plane builder takes
  them as parameters.
\<close>

record Cartographic =
  longitude :: real
  latitude :: real
  height :: real

record Ellipsoid =
  geodeticSurfaceNormal :: "Cartesian3 \<Rightarrow> Cartesian3"
  cartesianToCartographic :: "Cartesian3 \<Rightarrow> Cartographic"
  cartographicToCartesian :: "Cartographic \<Rightarrow> Cartesian3"

record S2Cell =
  getCenter :: Cartesian3
  getVertex :: "nat \<Rightarrow> Cartesian3"

subsection \<open>Loops that may throw\<close>

fun collect :: "(nat \<Rightarrow> error + 'a) \<Rightarrow> nat list \<Rightarrow> error + 'a list" where
  "collect f [] = Inr []"
| "collect f (i # is) =
     (case f i of
        Inl e \<Rightarrow> Inl e
      | Inr v \<Rightarrow> (case collect f is of Inl e \<Rightarrow> Inl e | Inr vs \<Rightarrow> Inr (v # vs)))"

definition slice :: "nat \<Rightarrow> nat \<Rightarrow> 'a list \<Rightarrow> 'a list" where
  "slice a b xs = take (b - a) (drop a xs)"

subsection \<open>computeBoundingPlanes\<close>

text \<open>
  The planes as values: what the six entries of the returned array hold when the call
  returns. Where the entries live is modelled with the constructor below.
\<close>

definition liftedCorner :: "S2Cell \<Rightarrow> real \<Rightarrow> Ellipsoid \<Rightarrow> nat \<Rightarrow> Cartesian3" where
  "liftedCorner s2Cell minimumHeight ellipsoid i =
     (let vertex = getVertex s2Cell i;
          vertexCartographic = cartesianToCartographic ellipsoid vertex;
          vertexCartographic = vertexCartographic\<lparr>height := minimumHeight\<rparr>
      in cartographicToCartesian ellipsoid vertexCartographic)"

definition computeTopPlane :: "S2Cell \<Rightarrow> real \<Rightarrow> Ellipsoid \<Rightarrow> Plane" where
  "computeTopPlane s2Cell maximumHeight ellipsoid =
     (let centerPoint = getCenter s2Cell;
          centerSurfaceNormal = geodeticSurfaceNormal ellipsoid centerPoint;
          topCartographic = cartesianToCartographic ellipsoid centerPoint;
          topCartographic = topCartographic\<lparr>height := maximumHeight\<rparr>;
          top = cartographicToCartesian ellipsoid topCartographic
      in Plane_fromPointNormal top centerSurfaceNormal)"

definition computeMaxDistance :: "S2Cell \<Rightarrow> real \<Rightarrow> Ellipsoid \<Rightarrow> Plane \<Rightarrow> real" where
  "computeMaxDistance s2Cell minimumHeight ellipsoid topPlane =
     foldl (\<lambda>maxDistance i.
              let distance = Plane_getPointDistance topPlane
                               (liftedCorner s2Cell minimumHeight ellipsoid i)
              in if distance < maxDistance then distance else maxDistance)
           0 [0..<4]"

definition computeBottomPlane :: "S2Cell \<Rightarrow> real \<Rightarrow> Ellipsoid \<Rightarrow> Plane \<Rightarrow> Plane" where
  "computeBottomPlane s2Cell minimumHeight ellipsoid topPlane =
     (let maxDistance = computeMaxDistance s2Cell minimumHeight ellipsoid topPlane;
          bottomPlane = topPlane;
          bottomPlane = bottomPlane\<lparr>normal := Cartesian3_negate (normal bottomPlane)\<rparr>
      in bottomPlane\<lparr>distance := distance bottomPlane * (- 1) + maxDistance\<rparr>)"

definition computeSidePlane :: "S2Cell \<Rightarrow> Ellipsoid \<Rightarrow> nat \<Rightarrow> error + Plane" where
  "computeSidePlane s2Cell ellipsoid i =
     (let vertex = getVertex s2Cell i;
          adjacentVertex = getVertex s2Cell ((i + 1) mod 4);
          geodeticNormal = geodeticSurfaceNormal ellipsoid vertex;
          side = Cartesian3_subtract adjacentVertex vertex;
          sideNormal = Cartesian3_cross side geodeticNormal
      in case Cartesian3_normalize sideNormal of
           Inl e \<Rightarrow> Inl e
         | Inr sideNormal \<Rightarrow> Inr (Plane_fromPointNormal vertex sideNormal))"

definition computeBoundingPlanes ::
  "S2Cell \<Rightarrow> real \<Rightarrow> real \<Rightarrow> Ellipsoid \<Rightarrow> error + Plane list" where
  "computeBoundingPlanes s2Cell minimumHeight maximumHeight ellipsoid =
     (let topPlane = computeTopPlane s2Cell maximumHeight ellipsoid;
          bottomPlane = computeBottomPlane s2Cell minimumHeight ellipsoid topPlane
      in case collect (computeSidePlane s2Cell ellipsoid) [0..<4] of
           Inl e \<Rightarrow> Inl e
         | Inr sidePlanes \<Rightarrow> Inr ([topPlane, bottomPlane] @ sidePlanes))"

subsection \<open>computeVertices and computeEdgeNormals\<close>

text \<open>
  The source fills \<open>vertices[i]\<close> and \<open>vertices[i + 4]\<close> in one loop over \<open>i < 4\<close>;
  the array it returns is the four top vertices followed by the four bottom ones.
\<close>

definition computeVertices :: "Plane list \<Rightarrow> Cartesian3 list" where
  "computeVertices boundingPlanes =
     map (\<lambda>i. computeIntersection (boundingPlanes ! 0)
                 (boundingPlanes ! (2 + ((i + 3) mod 4)))
                 (boundingPlanes ! (2 + (i mod 4)))) [0..<4]
     @ map (\<lambda>i. computeIntersection (boundingPlanes ! 1)
                 (boundingPlanes ! (2 + ((i + 3) mod 4)))
                 (boundingPlanes ! (2 + (i mod 4)))) [0..<4]"

definition computeEdgeNormals :: "Plane \<Rightarrow> Cartesian3 list \<Rightarrow> error + Cartesian3 list" where
  "computeEdgeNormals plane vertices =
     collect (\<lambda>i. let edge = Cartesian3_subtract (vertices ! i) (vertices ! ((i + 1) mod 4));
                      edgeNormal = Cartesian3_cross (normal plane) edge
                  in Cartesian3_normalize edgeNormal) [0..<4]"

subsection \<open>The bounding volume\<close>

text \<open>
  What a query reads: the values of \<open>this._boundingPlanes\<close>, \<open>this._vertices\<close> and
  \<open>this._edgeNormals\<close> at the moment of the call. The centre, the oriented box and the
  sphere are not read by the two queries.
\<close>

record TileBoundingS2Cell =
  this_boundingPlanes :: "Plane list"
  this_vertices :: "Cartesian3 list"
  this_edgeNormals :: "Cartesian3 list list"

definition sideFaceVertices :: "Cartesian3 list \<Rightarrow> nat \<Rightarrow> Cartesian3 list" where
  "sideFaceVertices vs i =
     [vs ! (i mod 4), vs ! (4 + i), vs ! (4 + ((i + 1) mod 4)), vs ! ((i + 1) mod 4)]"

subsection \<open>The constructor and the scratch planes of the module\<close>

text \<open>
  \<open>computeBoundingPlanes\<close> writes the top plane into the module-level object
  \<open>topPlaneScratch\<close> and the bottom plane into \<open>bottomPlaneScratch\<close>, and puts these two
  objects themselves into \<open>planes[0]\<close> and \<open>planes[1]\<close>; the four side planes are new
  objects. The first two planes of every tile are therefore the same two objects: a tile
  holds references to them, and the module holds their current values.
\<close>

record Module =
  topPlaneScratch :: Plane
  bottomPlaneScratch :: Plane

definition initialModule :: Module where
  "initialModule =
     \<lparr>topPlaneScratch = \<lparr>normal = \<lparr>x = 1, y = 0, z = 0\<rparr>, distance = 0\<rparr>,
      bottomPlaneScratch = \<lparr>normal = \<lparr>x = 1, y = 0, z = 0\<rparr>, distance = 0\<rparr>\<rparr>"

datatype PlaneRef = TopScratchRef | BottomScratchRef | OwnPlane Plane

fun dereference :: "Module \<Rightarrow> PlaneRef \<Rightarrow> Plane" where
  "dereference m TopScratchRef = topPlaneScratch m"
| "dereference m BottomScratchRef = bottomPlaneScratch m"
| "dereference m (OwnPlane p) = p"

record TileObject =
  object_boundingPlanes :: "PlaneRef list"
  object_vertices :: "Cartesian3 list"
  object_edgeNormals :: "Cartesian3 list list"

definition readTile :: "Module \<Rightarrow> TileObject \<Rightarrow> TileBoundingS2Cell" where
  "readTile m obj =
     \<lparr>this_boundingPlanes = map (dereference m) (object_boundingPlanes obj),
      this_vertices = object_vertices obj,
      this_edgeNormals = object_edgeNormals obj\<rparr>"

text \<open>
  \<open>computeBoundingPlanes\<close> with its writes: the array of references it returns and the
  module after the call. The two scratch planes are written before the loop over the side
  planes, so they are overwritten also when that loop throws.
\<close>

definition computeBoundingPlanesShared ::
  "S2Cell \<Rightarrow> real \<Rightarrow> real \<Rightarrow> Ellipsoid \<Rightarrow> Module \<Rightarrow> (error + PlaneRef list) \<times> Module" where
  "computeBoundingPlanesShared s2Cell minimumHeight maximumHeight ellipsoid m =
     (let topPlane = computeTopPlane s2Cell maximumHeight ellipsoid;
          m = m\<lparr>topPlaneScratch := topPlane\<rparr>;
          bottomPlane = computeBottomPlane s2Cell minimumHeight ellipsoid (topPlaneScratch m);
          m = m\<lparr>bottomPlaneScratch := bottomPlane\<rparr>
      in case collect (computeSidePlane s2Cell ellipsoid) [0..<4] of
           Inl e \<Rightarrow> (Inl e, m)
         | Inr sidePlanes \<Rightarrow>
             (Inr ([TopScratchRef, BottomScratchRef] @ map OwnPlane sidePlanes), m))"

text \<open>
  The vertices and the edge normals the constructor computes from the planes as they are
  at that moment; both are new objects of the tile.
\<close>

definition computeFaceData ::
  "Plane list \<Rightarrow> error + Cartesian3 list \<times> Cartesian3 list list" where
  "computeFaceData boundingPlanes =
     (let vertices = computeVertices boundingPlanes
      in case computeEdgeNormals (boundingPlanes ! 0) (slice 0 4 vertices) of
           Inl e \<Rightarrow> Inl e
         | Inr en0 \<Rightarrow>
        (case computeEdgeNormals (boundingPlanes ! 1) (slice 4 8 vertices) of
           Inl e \<Rightarrow> Inl e
         | Inr en1 \<Rightarrow>
        (case collect (\<lambda>i. computeEdgeNormals (boundingPlanes ! (2 + i))
                              (sideFaceVertices vertices i)) [0..<4] of
           Inl e \<Rightarrow> Inl e
         | Inr ens \<Rightarrow> Inr (vertices, [en0, en1] @ ens))))"

definition newTileBoundingS2Cell ::
  "S2Cell \<Rightarrow> real \<Rightarrow> real \<Rightarrow> Ellipsoid \<Rightarrow> Module \<Rightarrow> (error + TileObject) \<times> Module" where
  "newTileBoundingS2Cell s2Cell minimumHeight maximumHeight ellipsoid m =
     (case computeBoundingPlanesShared s2Cell minimumHeight maximumHeight ellipsoid m of
        (Inl e, m') \<Rightarrow> (Inl e, m')
      | (Inr boundingPlanes, m') \<Rightarrow>
          (case computeFaceData (map (dereference m') boundingPlanes) of
             Inl e \<Rightarrow> (Inl e, m')
           | Inr (vertices, edgeNormals) \<Rightarrow>
               (Inr \<lparr>object_boundingPlanes = boundingPlanes,
                     object_vertices = vertices,
                     object_edgeNormals = edgeNormals\<rparr>, m')))"

subsection \<open>closestPointPolygon\<close>

text \<open>
  The value passed as \<open>edgeNormals\<close>: an array of vectors, or one vector (an object
  with no indexed property, so that \<open>edgeNormals[i]\<close> is \<^verbatim>\<open>undefined\<close>).
\<close>

datatype EdgeNormalsArg = NormalArray "Cartesian3 list" | SingleNormal Cartesian3

fun indexNormal :: "EdgeNormalsArg \<Rightarrow> nat \<Rightarrow> Cartesian3 option" where
  "indexNormal (NormalArray ns) i = (if i < length ns then Some (ns ! i) else None)"
| "indexNormal (SingleNormal n) i = None"

definition Number_MAX_VALUE :: real where
  "Number_MAX_VALUE = (2 - 1 / 2 ^ 52) * 2 ^ 1023"

fun closestPointPolygon_loop ::
  "Cartesian3 \<Rightarrow> Cartesian3 list \<Rightarrow> EdgeNormalsArg \<Rightarrow> real \<Rightarrow> nat list \<Rightarrow>
   real \<times> Cartesian3 option \<Rightarrow> error + real \<times> Cartesian3 option" where
  "closestPointPolygon_loop p vertices edgeNormals dir [] st = Inr st"
| "closestPointPolygon_loop p vertices edgeNormals dir (i # is) (minDistance, closestPoint) =
     (case indexNormal edgeNormals i of
        None \<Rightarrow> Inl TypeError
      | Some edgeNormal \<Rightarrow>
          let edgePlane = Plane_fromPointNormal (vertices ! i) edgeNormal;
              edgePlaneDistance = Plane_getPointDistance edgePlane p
          in if dir * edgePlaneDistance > 0
             then closestPointPolygon_loop p vertices edgeNormals dir is (minDistance, closestPoint)
             else let closestPointOnEdge =
                        closestPointLineSegment p (vertices ! i) (vertices ! ((i + 1) mod 4));
                      distance = Cartesian3_distance p closestPointOnEdge
                  in if distance < minDistance
                     then closestPointPolygon_loop p vertices edgeNormals dir is
                            (distance, Some closestPointOnEdge)
                     else closestPointPolygon_loop p vertices edgeNormals dir is
                            (minDistance, closestPoint))"

definition closestPointPolygon ::
  "Cartesian3 \<Rightarrow> Cartesian3 list \<Rightarrow> Plane \<Rightarrow> EdgeNormalsArg \<Rightarrow> real \<Rightarrow> error + Cartesian3" where
  "closestPointPolygon p vertices plane edgeNormals dir =
     (case closestPointPolygon_loop p vertices edgeNormals dir [0..<length vertices]
             (Number_MAX_VALUE, None) of
        Inl e \<Rightarrow> Inl e
      | Inr (minDistance, closestPoint) \<Rightarrow>
          (case closestPoint of None \<Rightarrow> Inr p | Some c \<Rightarrow> Inr c))"

subsection \<open>distanceToCamera\<close>

text \<open>The locals the classification leaves behind; the last three start \<^verbatim>\<open>undefined\<close>.\<close>

record Locals =
  selectedPlaneIndices :: "nat list"
  vertices :: "Cartesian3 list option"
  edgeNormals :: "Cartesian3 list option"
  rotation :: "real option"

definition violated :: "TileBoundingS2Cell \<Rightarrow> Cartesian3 \<Rightarrow> nat \<Rightarrow> bool" where
  "violated this point k \<longleftrightarrow>
     CesiumMath_greaterThan
       (Plane_getPointDistance (this_boundingPlanes this ! k) point) 0 EPSILON14"

definition selectTopBottom :: "TileBoundingS2Cell \<Rightarrow> Cartesian3 \<Rightarrow> Locals" where
  "selectTopBottom this point =
     (if violated this point 0
      then \<lparr>selectedPlaneIndices = [0],
            vertices = Some (slice 0 4 (this_vertices this)),
            edgeNormals = Some (this_edgeNormals this ! 0),
            rotation = Some (- 1)\<rparr>
      else if violated this point 1
      then \<lparr>selectedPlaneIndices = [1],
            vertices = Some (slice 4 8 (this_vertices this)),
            edgeNormals = Some (this_edgeNormals this ! 1),
            rotation = Some 1\<rparr>
      else \<lparr>selectedPlaneIndices = [], vertices = None, edgeNormals = None,
            rotation = None\<rparr>)"

definition selectSide :: "TileBoundingS2Cell \<Rightarrow> Cartesian3 \<Rightarrow> Locals \<Rightarrow> nat \<Rightarrow> Locals" where
  "selectSide this point l i =
     (let sidePlaneIndex = 2 + i
      in if violated this point sidePlaneIndex
         then \<lparr>selectedPlaneIndices = selectedPlaneIndices l @ [2 + i],
               vertices = Some (sideFaceVertices (this_vertices this) i),
               edgeNormals = Some (this_edgeNormals this ! (2 + i)),
               rotation = Some (- 1)\<rparr>
         else l)"

definition selectPlanes :: "TileBoundingS2Cell \<Rightarrow> Cartesian3 \<Rightarrow> Locals" where
  "selectPlanes this point =
     foldl (selectSide this point) (selectTopBottom this point) [0..<4]"

definition distanceToFacePoint :: "error + Cartesian3 \<Rightarrow> Cartesian3 \<Rightarrow> error + real" where
  "distanceToFacePoint r point =
     (case r of Inl e \<Rightarrow> Inl e | Inr facePoint \<Rightarrow> Inr (Cartesian3_distance facePoint point))"

definition distanceToCamera :: "TileBoundingS2Cell \<Rightarrow> Cartesian3 \<Rightarrow> error + real" where
  "distanceToCamera this point =
     (let l = selectPlanes this point; sel = selectedPlaneIndices l
      in if length sel = 0 then Inr 0
         else if length sel = 1 then
           (case (vertices l, edgeNormals l, rotation l) of
              (Some vs, Some ens, Some rot) \<Rightarrow>
                (let selectedPlane = this_boundingPlanes this ! (sel ! 0)
                 in distanceToFacePoint
                      (closestPointPolygon (Plane_projectPointOntoPlane selectedPlane point)
                         vs selectedPlane (NormalArray ens) rot) point)
            | _ \<Rightarrow> Inl TypeError)
         else if length sel = 2 then
           (let edge =
                  (if sel ! 0 = 0
                   then [this_vertices this ! ((sel ! 1 + 3) mod 4),
                         this_vertices this ! ((sel ! 1 + 2) mod 4)]
                   else if sel ! 0 = 1
                   then [this_vertices this ! (sel ! 1 mod 4),
                         this_vertices this ! ((sel ! 1 + 1) mod 4)]
                   else [this_vertices this ! (4 + ((sel ! 0 + 3) mod 4)),
                         this_vertices this ! ((sel ! 0 + 3) mod 4)]);
                facePoint = closestPointLineSegment point (edge ! 0) (edge ! 1)
            in Inr (Cartesian3_distance facePoint point))
         else if length sel > 3 then
           (case (vertices l, edgeNormals l) of
              (Some vs, Some (n # ns)) \<Rightarrow>
                distanceToFacePoint
                  (closestPointPolygon
                     (Plane_projectPointOntoPlane (this_boundingPlanes this ! 0) point)
                     vs (this_boundingPlanes this ! 0) (SingleNormal n) 1) point
            | _ \<Rightarrow> Inl TypeError)
         else if sel ! 0 = 0
         then Inr (Cartesian3_distance point (this_vertices this ! (sel ! 1 mod 4)))
         else Inr (Cartesian3_distance point
                     (this_vertices this ! (4 + ((sel ! 0 + 1) mod 4)))))"

subsection \<open>Faces and their planes\<close>

text \<open>
  Two notions for stating properties, not part of the source: the vertices that the
  classification leaves in \<open>vertices\<close> when plane \<open>k\<close> is the only one selected, and a
  point of a plane (signed distance 0).
\<close>

definition faceVertices :: "Cartesian3 list \<Rightarrow> nat \<Rightarrow> Cartesian3 list" where
  "faceVertices vs k =
     (if k = 0 then slice 0 4 vs else if k = 1 then slice 4 8 vs
      else sideFaceVertices vs (k - 2))"

definition onPlane :: "Plane \<Rightarrow> Cartesian3 \<Rightarrow> bool" where
  "onPlane plane v \<longleftrightarrow> Plane_getPointDistance plane v = 0"

subsection \<open>intersectPlane\<close>

datatype Intersect = OUTSIDE | INTERSECTING | INSIDE

definition countSides :: "TileBoundingS2Cell \<Rightarrow> Plane \<Rightarrow> nat \<times> nat" where
  "countSides this plane =
     foldl (\<lambda>(plusCount, negCount) i.
              let distanceToPlane =
                    Cartesian3_dot (normal plane) (this_vertices this ! i) + distance plane
              in if distanceToPlane < 0 then (plusCount, negCount + 1)
                 else (plusCount + 1, negCount))
           (0, 0) [0..<length (this_vertices this)]"

definition intersectPlane :: "TileBoundingS2Cell \<Rightarrow> Plane \<Rightarrow> Intersect" where
  "intersectPlane this plane =
     (case countSides this plane of (plusCount, negCount) \<Rightarrow>
        if plusCount = length (this_vertices this) then INSIDE
        else if negCount = length (this_vertices this) then OUTSIDE
        else INTERSECTING)"

subsection \<open>Two concrete volumes\<close>

text \<open>
  A flat stand-in for the geodesy (the surface normal is the z axis, the height is the z
  coordinate) and a unit square cell: the constructor yields the unit box.
\<close>

definition flatEllipsoid :: Ellipsoid where
  "flatEllipsoid =
     \<lparr>geodeticSurfaceNormal = (\<lambda>p. \<lparr>x = 0, y = 0, z = 1\<rparr>),
      cartesianToCartographic = (\<lambda>p. \<lparr>longitude = x p, latitude = y p, height = z p\<rparr>),
      cartographicToCartesian = (\<lambda>c. \<lparr>x = longitude c, y = latitude c, z = height c\<rparr>)\<rparr>"

definition squareCell :: S2Cell where
  "squareCell =
     \<lparr>getCenter = \<lparr>x = 1 / 2, y = 1 / 2, z = 0\<rparr>,
      getVertex = (\<lambda>i. if i = 0 then \<lparr>x = 0, y = 0, z = 0\<rparr>
                        else if i = 1 then \<lparr>x = 1, y = 0, z = 0\<rparr>
                        else if i = 2 then \<lparr>x = 1, y = 1, z = 0\<rparr>
                        else \<lparr>x = 0, y = 1, z = 0\<rparr>)\<rparr>"

definition boxPlanes :: "Plane list" where
  "boxPlanes =
     [\<lparr>normal = \<lparr>x = 0, y = 0, z = 1\<rparr>, distance = - 1\<rparr>,
      \<lparr>normal = \<lparr>x = 0, y = 0, z = - 1\<rparr>, distance = 0\<rparr>,
      \<lparr>normal = \<lparr>x = 0, y = - 1, z = 0\<rparr>, distance = 0\<rparr>,
      \<lparr>normal = \<lparr>x = 1, y = 0, z = 0\<rparr>, distance = - 1\<rparr>,
      \<lparr>normal = \<lparr>x = 0, y = 1, z = 0\<rparr>, distance = - 1\<rparr>,
      \<lparr>normal = \<lparr>x = - 1, y = 0, z = 0\<rparr>, distance = 0\<rparr>]"

definition box :: TileBoundingS2Cell where
  "box =
     \<lparr>this_boundingPlanes = boxPlanes,
      this_vertices =
        [\<lparr>x = 0, y = 0, z = 1\<rparr>, \<lparr>x = 1, y = 0, z = 1\<rparr>,
         \<lparr>x = 1, y = 1, z = 1\<rparr>, \<lparr>x = 0, y = 1, z = 1\<rparr>,
         \<lparr>x = 0, y = 0, z = 0\<rparr>, \<lparr>x = 1, y = 0, z = 0\<rparr>,
         \<lparr>x = 1, y = 1, z = 0\<rparr>, \<lparr>x = 0, y = 1, z = 0\<rparr>],
      this_edgeNormals =
        [[\<lparr>x = 0, y = - 1, z = 0\<rparr>, \<lparr>x = 1, y = 0, z = 0\<rparr>,
          \<lparr>x = 0, y = 1, z = 0\<rparr>, \<lparr>x = - 1, y = 0, z = 0\<rparr>],
         [\<lparr>x = 0, y = 1, z = 0\<rparr>, \<lparr>x = - 1, y = 0, z = 0\<rparr>,
          \<lparr>x = 0, y = - 1, z = 0\<rparr>, \<lparr>x = 1, y = 0, z = 0\<rparr>],
         [\<lparr>x = - 1, y = 0, z = 0\<rparr>, \<lparr>x = 0, y = 0, z = - 1\<rparr>,
          \<lparr>x = 1, y = 0, z = 0\<rparr>, \<lparr>x = 0, y = 0, z = 1\<rparr>],
         [\<lparr>x = 0, y = - 1, z = 0\<rparr>, \<lparr>x = 0, y = 0, z = - 1\<rparr>,
          \<lparr>x = 0, y = 1, z = 0\<rparr>, \<lparr>x = 0, y = 0, z = 1\<rparr>],
         [\<lparr>x = 1, y = 0, z = 0\<rparr>, \<lparr>x = 0, y = 0, z = - 1\<rparr>,
          \<lparr>x = - 1, y = 0, z = 0\<rparr>, \<lparr>x = 0, y = 0, z = 1\<rparr>],
         [\<lparr>x = 0, y = 1, z = 0\<rparr>, \<lparr>x = 0, y = 0, z = - 1\<rparr>,
          \<lparr>x = 0, y = - 1, z = 0\<rparr>, \<lparr>x = 0, y = 0, z = 1\<rparr>]]\<rparr>"

text \<open>
  A volume whose side planes 0 and 2 converge below the bottom face, as the side planes of
  a cell on an ellipsoid do: a point under the line where they meet violates both.
\<close>

definition wedgePlanes :: "Plane list" where
  "wedgePlanes =
     [\<lparr>normal = \<lparr>x = 0, y = 0, z = 1\<rparr>, distance = - 2\<rparr>,
      \<lparr>normal = \<lparr>x = 0, y = 0, z = - 1\<rparr>, distance = 1\<rparr>,
      \<lparr>normal = \<lparr>x = 0, y = - (3 / 5), z = - (4 / 5)\<rparr>, distance = 0\<rparr>,
      \<lparr>normal = \<lparr>x = 1, y = 0, z = 0\<rparr>, distance = - 1\<rparr>,
      \<lparr>normal = \<lparr>x = 0, y = 3 / 5, z = - (4 / 5)\<rparr>, distance = 0\<rparr>,
      \<lparr>normal = \<lparr>x = - 1, y = 0, z = 0\<rparr>, distance = - 1\<rparr>]"

definition wedge :: TileBoundingS2Cell where
  "wedge =
     \<lparr>this_boundingPlanes = wedgePlanes,
      this_vertices =
        [\<lparr>x = - 1, y = - (8 / 3), z = 2\<rparr>, \<lparr>x = 1, y = - (8 / 3), z = 2\<rparr>,
         \<lparr>x = 1, y = 8 / 3, z = 2\<rparr>, \<lparr>x = - 1, y = 8 / 3, z = 2\<rparr>,
         \<lparr>x = - 1, y = - (4 / 3), z = 1\<rparr>, \<lparr>x = 1, y = - (4 / 3), z = 1\<rparr>,
         \<lparr>x = 1, y = 4 / 3, z = 1\<rparr>, \<lparr>x = - 1, y = 4 / 3, z = 1\<rparr>],
      this_edgeNormals =
        [[\<lparr>x = 0, y = - 1, z = 0\<rparr>, \<lparr>x = 1, y = 0, z = 0\<rparr>,
          \<lparr>x = 0, y = 1, z = 0\<rparr>, \<lparr>x = - 1, y = 0, z = 0\<rparr>],
         [\<lparr>x = 0, y = 1, z = 0\<rparr>, \<lparr>x = - 1, y = 0, z = 0\<rparr>,
          \<lparr>x = 0, y = - 1, z = 0\<rparr>, \<lparr>x = 1, y = 0, z = 0\<rparr>],
         [\<lparr>x = - 1, y = 0, z = 0\<rparr>, \<lparr>x = 0, y = 4 / 5, z = - (3 / 5)\<rparr>,
          \<lparr>x = 1, y = 0, z = 0\<rparr>, \<lparr>x = 0, y = - (4 / 5), z = 3 / 5\<rparr>],
         [\<lparr>x = 0, y = - (3 / 5), z = - (4 / 5)\<rparr>, \<lparr>x = 0, y = 0, z = - 1\<rparr>,
          \<lparr>x = 0, y = 3 / 5, z = - (4 / 5)\<rparr>, \<lparr>x = 0, y = 0, z = 1\<rparr>],
         [\<lparr>x = 1, y = 0, z = 0\<rparr>, \<lparr>x = 0, y = - (4 / 5), z = - (3 / 5)\<rparr>,
          \<lparr>x = - 1, y = 0, z = 0\<rparr>, \<lparr>x = 0, y = 4 / 5, z = 3 / 5\<rparr>],
         [\<lparr>x = 0, y = 3 / 5, z = - (4 / 5)\<rparr>, \<lparr>x = 0, y = 0, z = - 1\<rparr>,
          \<lparr>x = 0, y = - (3 / 5), z = - (4 / 5)\<rparr>, \<lparr>x = 0, y = 0, z = 1\<rparr>]]\<rparr>"

text \<open>
  The tile object of the unit box, and a second cell on a tilted plane (again with a
  stand-in for the geodesy: the surface normal is \<open>(3/5, 0, 4/5)\<close> everywhere) whose
  construction overwrites the two scratch planes.
\<close>

definition boxObject :: TileObject where
  "boxObject =
     \<lparr>object_boundingPlanes =
        [TopScratchRef, BottomScratchRef,
         OwnPlane \<lparr>normal = \<lparr>x = 0, y = - 1, z = 0\<rparr>, distance = 0\<rparr>,
         OwnPlane \<lparr>normal = \<lparr>x = 1, y = 0, z = 0\<rparr>, distance = - 1\<rparr>,
         OwnPlane \<lparr>normal = \<lparr>x = 0, y = 1, z = 0\<rparr>, distance = - 1\<rparr>,
         OwnPlane \<lparr>normal = \<lparr>x = - 1, y = 0, z = 0\<rparr>, distance = 0\<rparr>],
      object_vertices = this_vertices box,
      object_edgeNormals = this_edgeNormals box\<rparr>"

definition boxModule :: Module where
  "boxModule =
     \<lparr>topPlaneScratch = \<lparr>normal = \<lparr>x = 0, y = 0, z = 1\<rparr>, distance = - 1\<rparr>,
      bottomPlaneScratch = \<lparr>normal = \<lparr>x = 0, y = 0, z = - 1\<rparr>, distance = 0\<rparr>\<rparr>"

definition tiltedEllipsoid :: Ellipsoid where
  "tiltedEllipsoid =
     \<lparr>geodeticSurfaceNormal = (\<lambda>p. \<lparr>x = 3 / 5, y = 0, z = 4 / 5\<rparr>),
      cartesianToCartographic = (\<lambda>p. \<lparr>longitude = x p, latitude = y p, height = z p\<rparr>),
      cartographicToCartesian = (\<lambda>c. \<lparr>x = longitude c, y = latitude c, z = height c\<rparr>)\<rparr>"

definition tiltedCell :: S2Cell where
  "tiltedCell =
     \<lparr>getCenter = \<lparr>x = 0, y = 1 / 2, z = 0\<rparr>,
      getVertex = (\<lambda>i. if i = 0 then \<lparr>x = - (1 / 2), y = 0, z = 0\<rparr>
                        else if i = 1 then \<lparr>x = 1 / 2, y = 0, z = 0\<rparr>
                        else if i = 2 then \<lparr>x = 1 / 2, y = 1, z = 0\<rparr>
                        else \<lparr>x = - (1 / 2), y = 1, z = 0\<rparr>)\<rparr>"

definition tiltedModule :: Module where
  "tiltedModule =
     \<lparr>topPlaneScratch = \<lparr>normal = \<lparr>x = 3 / 5, y = 0, z = 4 / 5\<rparr>, distance = 0\<rparr>,
      bottomPlaneScratch =
        \<lparr>normal = \<lparr>x = - (3 / 5), y = 0, z = - (4 / 5)\<rparr>, distance = - (11 / 10)\<rparr>\<rparr>"

section \<open>Evaluation on concrete vectors\<close>

lemma upt_0_4: "[0..<4] = [0, 1, 2, 3]"
  by (simp add: upt_rec)

lemma v_add: "Cartesian3_add \<lparr>x = a, y = b, z = c\<rparr> \<lparr>x = d, y = e, z = f\<rparr> = \<lparr>x = a + d, y = b + e, z = c + f\<rparr>"
  by (simp add: Cartesian3_add_def)
lemma v_sub: "Cartesian3_subtract \<lparr>x = a, y = b, z = c\<rparr> \<lparr>x = d, y = e, z = f\<rparr> = \<lparr>x = a - d, y = b - e, z = c - f\<rparr>"
  by (simp add: Cartesian3_subtract_def)
lemma v_mul: "Cartesian3_multiplyByScalar \<lparr>x = a, y = b, z = c\<rparr> s = \<lparr>x = a * s, y = b * s, z = c * s\<rparr>"
  by (simp add: Cartesian3_multiplyByScalar_def)
lemma v_neg: "Cartesian3_negate \<lparr>x = a, y = b, z = c\<rparr> = \<lparr>x = - a, y = - b, z = - c\<rparr>"
  by (simp add: Cartesian3_negate_def)
lemma v_dot: "Cartesian3_dot \<lparr>x = a, y = b, z = c\<rparr> \<lparr>x = d, y = e, z = f\<rparr> = a * d + b * e + c * f"
  by (simp add: Cartesian3_dot_def)
lemma v_cross: "Cartesian3_cross \<lparr>x = a, y = b, z = c\<rparr> \<lparr>x = d, y = e, z = f\<rparr> = \<lparr>x = b * f - c * e, y = c * d - a * f, z = a * e - b * d\<rparr>"
  by (simp add: Cartesian3_cross_def)
lemma v_mag: "Cartesian3_magnitude \<lparr>x = a, y = b, z = c\<rparr> = sqrt (a * a + b * b + c * c)"
  by (simp add: Cartesian3_magnitude_def Cartesian3_magnitudeSquared_def)
lemma v_dist: "Cartesian3_distance \<lparr>x = a, y = b, z = c\<rparr> \<lparr>x = d, y = e, z = f\<rparr> = sqrt ((a - d) * (a - d) + (b - e) * (b - e) + (c - f) * (c - f))"
  by (simp add: Cartesian3_distance_def v_sub v_mag)
lemma v_norm: "Cartesian3_normalize \<lparr>x = a, y = b, z = c\<rparr> =
   (if sqrt (a * a + b * b + c * c) = 0 then Inl NotANumber
    else Inr \<lparr>x = a / sqrt (a * a + b * b + c * c), y = b / sqrt (a * a + b * b + c * c), z = c / sqrt (a * a + b * b + c * c)\<rparr>)"
  by (simp add: Cartesian3_normalize_def Let_def v_mag)

lemmas vec_eval = v_add v_sub v_mul v_neg v_dot v_cross v_mag v_dist

lemma inter_eval:
  "computeIntersection \<lparr>normal = \<lparr>x = a0, y = b0, z = c0\<rparr>, distance = d0\<rparr>
      \<lparr>normal = \<lparr>x = a1, y = b1, z = c1\<rparr>, distance = d1\<rparr>
      \<lparr>normal = \<lparr>x = a2, y = b2, z = c2\<rparr>, distance = d2\<rparr> =
   (let D = a0 * (b1 * c2 - c1 * b2) + b0 * (c1 * a2 - a1 * c2) + c0 * (a1 * b2 - b1 * a2);
        k0 = (a0 * - d0) * a0 + (b0 * - d0) * b0 + (c0 * - d0) * c0;
        k1 = (a1 * - d1) * a1 + (b1 * - d1) * b1 + (c1 * - d1) * c1;
        k2 = (a2 * - d2) * a2 + (b2 * - d2) * b2 + (c2 * - d2) * c2
    in \<lparr>x = ((b1 * c2 - c1 * b2) * k0 + (b2 * c0 - c2 * b0) * k1 + (b0 * c1 - c0 * b1) * k2) / D,
        y = ((c1 * a2 - a1 * c2) * k0 + (c2 * a0 - a2 * c0) * k1 + (c0 * a1 - a0 * c1) * k2) / D,
        z = ((a1 * b2 - b1 * a2) * k0 + (a2 * b0 - b2 * a0) * k1 + (a0 * b1 - b0 * a1) * k2) / D\<rparr>)"
  by (simp add: computeIntersection_def Let_def Matrix3_determinant_def normalMatrix_def vec_eval)

lemma wedge_vertices: "computeVertices wedgePlanes = this_vertices wedge"
  by (simp add: computeVertices_def wedgePlanes_def wedge_def upt_0_4 inter_eval vec_eval)


lemma edge_normals_eval:
  "computeEdgeNormals pl [v0, v1, v2, v3] =
     collect (\<lambda>i. Cartesian3_normalize
                (Cartesian3_cross (normal pl)
                   (Cartesian3_subtract ([v0, v1, v2, v3] ! i) ([v0, v1, v2, v3] ! ((i + 1) mod 4)))))
       [0, 1, 2, 3]"
  by (simp add: computeEdgeNormals_def upt_0_4 Let_def)

lemma wedge_built:
  "computeFaceData wedgePlanes = Inr (this_vertices wedge, this_edgeNormals wedge)"
  unfolding computeFaceData_def wedge_vertices Let_def
  by (simp add: wedgePlanes_def wedge_def upt_0_4 edge_normals_eval sideFaceVertices_def
      slice_def vec_eval v_norm real_sqrt_divide)

lemma box_vertices: "computeVertices boxPlanes = this_vertices box"
  by (simp add: computeVertices_def boxPlanes_def box_def upt_0_4 inter_eval vec_eval)

lemma box_built:
  "computeFaceData boxPlanes = Inr (this_vertices box, this_edgeNormals box)"
  unfolding computeFaceData_def box_vertices Let_def
  by (simp add: boxPlanes_def box_def upt_0_4 edge_normals_eval sideFaceVertices_def
      slice_def vec_eval v_norm)

lemma box_planes: "computeBoundingPlanes squareCell 0 1 flatEllipsoid = Inr boxPlanes"
  by (simp add: computeBoundingPlanes_def computeTopPlane_def computeBottomPlane_def
      computeMaxDistance_def computeSidePlane_def liftedCorner_def squareCell_def
      flatEllipsoid_def boxPlanes_def upt_0_4 Let_def Plane_fromPointNormal_def
      Plane_getPointDistance_def vec_eval v_norm)

lemma box_planes_shared:
  "computeBoundingPlanesShared squareCell 0 1 flatEllipsoid m =
     (Inr (object_boundingPlanes boxObject), boxModule)"
  by (simp add: computeBoundingPlanesShared_def computeTopPlane_def computeBottomPlane_def
      computeMaxDistance_def computeSidePlane_def liftedCorner_def squareCell_def
      flatEllipsoid_def boxObject_def boxModule_def upt_0_4 Let_def Plane_fromPointNormal_def
      Plane_getPointDistance_def vec_eval v_norm)

lemma box_refs: "map (dereference boxModule) (object_boundingPlanes boxObject) = boxPlanes"
  by (simp add: boxObject_def boxModule_def boxPlanes_def)

lemma box_new:
  "newTileBoundingS2Cell squareCell 0 1 flatEllipsoid m = (Inr boxObject, boxModule)"
  by (simp add: newTileBoundingS2Cell_def box_planes_shared box_refs box_built)
    (simp add: boxObject_def)

lemma box_read: "readTile boxModule boxObject = box"
  by (simp add: readTile_def box_refs) (simp add: boxObject_def box_def)

lemma tilted_new:
  "snd (newTileBoundingS2Cell tiltedCell (- 1) 0 tiltedEllipsoid m) = tiltedModule"
proof -
  have "snd (computeBoundingPlanesShared tiltedCell (- 1) 0 tiltedEllipsoid m) = tiltedModule"
    by (simp add: computeBoundingPlanesShared_def computeTopPlane_def computeBottomPlane_def
        computeMaxDistance_def liftedCorner_def tiltedCell_def tiltedEllipsoid_def
        tiltedModule_def upt_0_4 Let_def Plane_fromPointNormal_def Plane_getPointDistance_def
        vec_eval split: sum.splits)
  then show ?thesis
    by (auto simp: newTileBoundingS2Cell_def split: prod.splits sum.splits)
qed


lemma all_less_4: "(\<forall>k<4. P k) \<longleftrightarrow> P (0::nat) \<and> P 1 \<and> P 2 \<and> P 3"
  by (simp add: eval_nat_numeral All_less_Suc conj_ac)

lemma all_less_6: "(\<forall>k<6. P k) \<longleftrightarrow> P (0::nat) \<and> P 1 \<and> P 2 \<and> P 3 \<and> P 4 \<and> P 5"
  by (simp add: eval_nat_numeral All_less_Suc conj_ac)

lemma all_less_8:
  "(\<forall>k<8. P k) \<longleftrightarrow> P (0::nat) \<and> P 1 \<and> P 2 \<and> P 3 \<and> P 4 \<and> P 5 \<and> P 6 \<and> P 7"
  by (simp add: eval_nat_numeral All_less_Suc conj_ac)

lemma plane_dist_eval:
  "Plane_getPointDistance \<lparr>normal = \<lparr>x = a, y = b, z = c\<rparr>, distance = d\<rparr>
     \<lparr>x = p, y = q, z = r\<rparr> = a * p + b * q + c * r + d"
  by (simp add: Plane_getPointDistance_def v_dot)

lemma box_vertices_eq:
  "this_vertices box =
     [\<lparr>x = 0, y = 0, z = 1\<rparr>, \<lparr>x = 1, y = 0, z = 1\<rparr>,
      \<lparr>x = 1, y = 1, z = 1\<rparr>, \<lparr>x = 0, y = 1, z = 1\<rparr>,
      \<lparr>x = 0, y = 0, z = 0\<rparr>, \<lparr>x = 1, y = 0, z = 0\<rparr>,
      \<lparr>x = 1, y = 1, z = 0\<rparr>, \<lparr>x = 0, y = 1, z = 0\<rparr>]"
  by (simp add: box_def)

section \<open>The classification of the query point\<close>

lemma selected_char:
  "selectedPlaneIndices (selectPlanes this point) =
     (if violated this point 0 then [0] else if violated this point 1 then [1] else [])
     @ filter (violated this point) [2, 3, 4, 5]"
  by (simp add: selectPlanes_def selectTopBottom_def selectSide_def upt_0_4 Let_def)

section \<open>Counting vertices on each side of a plane\<close>

lemma length_filter_eq_iff:
  "length (filter P xs) = length xs \<longleftrightarrow> (\<forall>a\<in>set xs. P a)"
proof (induction xs)
  case Nil
  show ?case by simp
next
  case (Cons a xs)
  have "length (filter P xs) \<le> length xs" by (rule length_filter_le)
  then have "length (filter P xs) \<noteq> Suc (length xs)" by linarith
  with Cons show ?case by auto
qed

lemma countSides_foldl:
  "foldl (\<lambda>(plusCount, negCount) i.
              if f i < (0::real) then (plusCount, negCount + 1)
                 else (plusCount + 1, negCount)) (a, b) js
   = (a + length (filter (\<lambda>i. \<not> f i < 0) js), b + length (filter (\<lambda>i. f i < 0) js))"
  by (induction js arbitrary: a b) simp_all

lemma countSides_eq:
  "countSides this plane =
     (length (filter (\<lambda>i. \<not> Cartesian3_dot (normal plane) (this_vertices this ! i) + distance plane < 0)
          [0..<length (this_vertices this)]),
      length (filter (\<lambda>i. Cartesian3_dot (normal plane) (this_vertices this ! i) + distance plane < 0)
          [0..<length (this_vertices this)]))"
  unfolding countSides_def Let_def
  by (simp add: countSides_foldl [where f = "\<lambda>i. Cartesian3_dot (normal plane) (this_vertices this ! i) + distance plane"])

section \<open>Vector algebra\<close>

lemmas vec_defs = Cartesian3_add_def Cartesian3_subtract_def Cartesian3_multiplyByScalar_def
  Cartesian3_negate_def Cartesian3_dot_def Cartesian3_cross_def Cartesian3_magnitudeSquared_def

lemma magnitudeSquared_nonneg: "0 \<le> Cartesian3_magnitudeSquared v"
  by (simp add: Cartesian3_magnitudeSquared_def)

lemma magnitudeSquared_zero_iff:
  "Cartesian3_magnitudeSquared (Cartesian3_subtract a b) = 0 \<longleftrightarrow> a = b"
proof
  assume h: "Cartesian3_magnitudeSquared (Cartesian3_subtract a b) = 0"
  then have "(x a - x b) * (x a - x b) + (y a - y b) * (y a - y b)
             + (z a - z b) * (z a - z b) = 0"
    by (simp add: vec_defs)
  then have "x a - x b = 0 \<and> y a - y b = 0 \<and> z a - z b = 0"
    by (metis (no_types, opaque_lifting) add_nonneg_eq_0_iff mult_eq_0_iff zero_le_square
        add_nonneg_nonneg)
  then show "a = b" by simp
next
  assume "a = b"
  then show "Cartesian3_magnitudeSquared (Cartesian3_subtract a b) = 0"
    by (simp add: vec_defs)
qed

lemma dot_self: "Cartesian3_dot v v = Cartesian3_magnitudeSquared v"
  by (simp add: vec_defs)

lemma dot_commute: "Cartesian3_dot a b = Cartesian3_dot b a"
  by (simp add: vec_defs mult.commute)

lemma segment_distance_squared:
  "Cartesian3_magnitudeSquared (Cartesian3_subtract p (segmentPoint l0 l1 s)) =
     Cartesian3_magnitudeSquared (Cartesian3_subtract p l0)
     - 2 * s * Cartesian3_dot (Cartesian3_subtract l1 l0) (Cartesian3_subtract p l0)
     + s * s * Cartesian3_magnitudeSquared (Cartesian3_subtract l1 l0)"
  by (simp add: segmentPoint_def vec_defs algebra_simps)

lemma segmentPoint_convex:
  "segmentPoint l0 l1 t =
     \<lparr>x = (1 - t) * x l0 + t * x l1,
      y = (1 - t) * y l0 + t * y l1,
      z = (1 - t) * z l0 + t * z l1\<rparr>"
  by (simp add: segmentPoint_def Cartesian3_add_def Cartesian3_multiplyByScalar_def
      Cartesian3_subtract_def algebra_simps)

lemma quadratic_clamped_minimum:
  fixes B T D s :: real
  assumes D: "0 < D" and s: "0 \<le> s" "s \<le> 1"
  defines "c \<equiv> max 0 (min 1 (T / D))"
  shows "B - 2 * c * T + c * c * D \<le> B - 2 * s * T + s * s * D"
    and "B - 2 * s * T + s * s * D = B - 2 * c * T + c * c * D \<Longrightarrow> s = c"
proof -
  have diff: "(B - 2 * s * T + s * s * D) - (B - 2 * c * T + c * c * D)
              = (s - c) * (D * (s + c) - 2 * T)"
    by (simp add: algebra_simps)
  consider (low) "T \<le> 0" | (high) "D \<le> T" | (mid) "0 < T" "T < D"
    by linarith
  then have "0 \<le> (s - c) * (D * (s + c) - 2 * T)
             \<and> ((s - c) * (D * (s + c) - 2 * T) = 0 \<longrightarrow> s = c)"
  proof cases
    case low
    then have "T / D \<le> 0" using D by (simp add: divide_nonpos_pos)
    then have c0: "c = 0" by (simp add: c_def)
    have "0 \<le> D * s" using D s by simp
    then have pos: "0 \<le> D * s - 2 * T" using low by linarith
    have "0 \<le> s * (D * s - 2 * T)" using s pos by simp
    moreover have "s = 0" if "s * (D * s - 2 * T) = 0"
    proof (rule ccontr)
      assume "s \<noteq> 0"
      then have sp: "0 < s" using s by simp
      then have "0 < D * s" using D by simp
      then have "0 < D * s - 2 * T" using low by linarith
      then show False using that sp by simp
    qed
    ultimately show ?thesis by (simp add: c0)
  next
    case high
    then have "1 \<le> T / D" using D by (simp add: le_divide_eq)
    then have c1: "c = 1" by (simp add: c_def)
    have "D * (s + 1) \<le> D * 2" using D s by simp
    then have neg: "D * (s + 1) - 2 * T \<le> 0" using high by linarith
    have "0 \<le> (s - 1) * (D * (s + 1) - 2 * T)"
      using s neg by (simp add: mult_nonpos_nonpos)
    moreover have "s = 1" if "(s - 1) * (D * (s + 1) - 2 * T) = 0"
    proof (rule ccontr)
      assume "s \<noteq> 1"
      then have sl: "s < 1" using s by simp
      then have "D * (s + 1) < D * 2" using D by simp
      then have "D * (s + 1) - 2 * T < 0" using high by linarith
      then show False using that sl by simp
    qed
    ultimately show ?thesis by (simp add: c1)
  next
    case mid
    then have "0 < T / D" "T / D < 1" using D by simp_all
    then have cm: "c = T / D" by (simp add: c_def)
    have "D * (s + T / D) - 2 * T = D * (s - T / D)"
      using D by (simp add: algebra_simps)
    then have eq: "(s - c) * (D * (s + c) - 2 * T) = D * ((s - c) * (s - c))"
      by (simp add: cm)
    have nn: "0 \<le> D * ((s - c) * (s - c))" using D by simp
    have zero: "s = c" if "D * ((s - c) * (s - c)) = 0"
      using that D by simp
    show ?thesis unfolding eq using nn zero by blast
  qed
  then have nonneg: "0 \<le> (s - c) * (D * (s + c) - 2 * T)"
    and zero: "(s - c) * (D * (s + c) - 2 * T) = 0 \<Longrightarrow> s = c"
    by blast+
  have "0 \<le> (B - 2 * s * T + s * s * D) - (B - 2 * c * T + c * c * D)"
    by (subst diff) (rule nonneg)
  then show "B - 2 * c * T + c * c * D \<le> B - 2 * s * T + s * s * D"
    by linarith
  show "s = c" if "B - 2 * s * T + s * s * D = B - 2 * c * T + c * c * D"
  proof -
    have "(B - 2 * s * T + s * s * D) - (B - 2 * c * T + c * c * D) = 0"
      using that by linarith
    then have "(s - c) * (D * (s + c) - 2 * T) = 0"
      by (simp only: diff)
    then show ?thesis by (rule zero)
  qed
qed

lemma closestPointLineSegment_clamped:
  assumes "l0 \<noteq> l1"
  shows "closestPointLineSegment p l0 l1 = segmentPoint l0 l1 (clampedParameter p l0 l1)"
proof -
  let ?d = "Cartesian3_subtract l1 l0"
  let ?t = "Cartesian3_dot ?d (Cartesian3_subtract p l0)"
  let ?D = "Cartesian3_magnitudeSquared ?d"
  have "?D \<noteq> 0" using assms magnitudeSquared_zero_iff [of l1 l0] by auto
  then have D: "0 < ?D" using magnitudeSquared_nonneg [of ?d] by linarith
  have param: "clampedParameter p l0 l1 = max 0 (min 1 (?t / ?D))"
    by (simp add: clampedParameter_def dot_commute)
  consider (low) "?t \<le> 0" | (high) "?D \<le> ?t" | (mid) "0 < ?t" "?t < ?D"
    by linarith
  then show ?thesis
  proof cases
    case low
    then have "?t / ?D \<le> 0" using D by (simp add: divide_nonpos_pos)
    then have "clampedParameter p l0 l1 = 0" by (simp add: param)
    moreover have "closestPointLineSegment p l0 l1 = l0"
      using low by (simp add: closestPointLineSegment_def Let_def)
    ultimately show ?thesis by (simp add: segmentPoint_def vec_defs)
  next
    case high
    then have "1 \<le> ?t / ?D" using D by (simp add: le_divide_eq)
    then have "clampedParameter p l0 l1 = 1" by (simp add: param)
    moreover have "closestPointLineSegment p l0 l1 = l1"
      using high D by (simp add: closestPointLineSegment_def Let_def dot_self)
    ultimately show ?thesis by (simp add: segmentPoint_def vec_defs)
  next
    case mid
    then have "0 < ?t / ?D" "?t / ?D < 1" using D by simp_all
    then have "clampedParameter p l0 l1 = ?t / ?D" by (simp add: param)
    moreover have "closestPointLineSegment p l0 l1 =
        \<lparr>x = (1 - ?t / ?D) * x l0 + ?t / ?D * x l1,
         y = (1 - ?t / ?D) * y l0 + ?t / ?D * y l1,
         z = (1 - ?t / ?D) * z l0 + ?t / ?D * z l1\<rparr>"
      using mid by (simp add: closestPointLineSegment_def Let_def dot_self)
    moreover have "segmentPoint l0 l1 (?t / ?D) =
        \<lparr>x = (1 - ?t / ?D) * x l0 + ?t / ?D * x l1,
         y = (1 - ?t / ?D) * y l0 + ?t / ?D * y l1,
         z = (1 - ?t / ?D) * z l0 + ?t / ?D * z l1\<rparr>"
      by (rule segmentPoint_convex)
    ultimately show ?thesis by simp
  qed
qed

lemma plane_cases:
  obtains a b c d where "p = \<lparr>normal = \<lparr>x = a, y = b, z = c\<rparr>, distance = d\<rparr>"
proof -
  have "p = \<lparr>normal = \<lparr>x = x (normal p), y = y (normal p), z = z (normal p)\<rparr>,
             distance = distance p\<rparr>"
    by simp
  then show ?thesis by (rule that)
qed

lemma vector_cases:
  obtains a b c where "v = \<lparr>x = a, y = b, z = c\<rparr>"
proof -
  have "v = \<lparr>x = x v, y = y v, z = z v\<rparr>" by simp
  then show ?thesis by (rule that)
qed

lemma unit_components:
  "Cartesian3_magnitude \<lparr>x = a, y = b, z = c\<rparr> = 1 \<longleftrightarrow> a * a + b * b + c * c = 1"
  by (simp add: v_mag)

lemma cramer_row0:
  fixes a0 :: real
  shows "a0 * ((b1 * c2 - c1 * b2) * k0 + (b2 * c0 - c2 * b0) * k1 + (b0 * c1 - c0 * b1) * k2)
       + b0 * ((c1 * a2 - a1 * c2) * k0 + (c2 * a0 - a2 * c0) * k1 + (c0 * a1 - a0 * c1) * k2)
       + c0 * ((a1 * b2 - b1 * a2) * k0 + (a2 * b0 - b2 * a0) * k1 + (a0 * b1 - b0 * a1) * k2)
       = k0 * (a0 * (b1 * c2 - c1 * b2) + b0 * (c1 * a2 - a1 * c2) + c0 * (a1 * b2 - b1 * a2))"
  by (simp add: algebra_simps)

lemma cramer_row1:
  fixes a0 :: real
  shows "a1 * ((b1 * c2 - c1 * b2) * k0 + (b2 * c0 - c2 * b0) * k1 + (b0 * c1 - c0 * b1) * k2)
       + b1 * ((c1 * a2 - a1 * c2) * k0 + (c2 * a0 - a2 * c0) * k1 + (c0 * a1 - a0 * c1) * k2)
       + c1 * ((a1 * b2 - b1 * a2) * k0 + (a2 * b0 - b2 * a0) * k1 + (a0 * b1 - b0 * a1) * k2)
       = k1 * (a0 * (b1 * c2 - c1 * b2) + b0 * (c1 * a2 - a1 * c2) + c0 * (a1 * b2 - b1 * a2))"
  by (simp add: algebra_simps)

lemma cramer_row2:
  fixes a0 :: real
  shows "a2 * ((b1 * c2 - c1 * b2) * k0 + (b2 * c0 - c2 * b0) * k1 + (b0 * c1 - c0 * b1) * k2)
       + b2 * ((c1 * a2 - a1 * c2) * k0 + (c2 * a0 - a2 * c0) * k1 + (c0 * a1 - a0 * c1) * k2)
       + c2 * ((a1 * b2 - b1 * a2) * k0 + (a2 * b0 - b2 * a0) * k1 + (a0 * b1 - b0 * a1) * k2)
       = k2 * (a0 * (b1 * c2 - c1 * b2) + b0 * (c1 * a2 - a1 * c2) + c0 * (a1 * b2 - b1 * a2))"
  by (simp add: algebra_simps)

lemma cramer_x:
  fixes a0 :: real
  shows "(b1 * c2 - c1 * b2) * (a0 * u + b0 * v + c0 * w)
       + (b2 * c0 - c2 * b0) * (a1 * u + b1 * v + c1 * w)
       + (b0 * c1 - c0 * b1) * (a2 * u + b2 * v + c2 * w)
       = (a0 * (b1 * c2 - c1 * b2) + b0 * (c1 * a2 - a1 * c2) + c0 * (a1 * b2 - b1 * a2)) * u"
  by (simp add: algebra_simps)

lemma cramer_y:
  fixes a0 :: real
  shows "(c1 * a2 - a1 * c2) * (a0 * u + b0 * v + c0 * w)
       + (c2 * a0 - a2 * c0) * (a1 * u + b1 * v + c1 * w)
       + (c0 * a1 - a0 * c1) * (a2 * u + b2 * v + c2 * w)
       = (a0 * (b1 * c2 - c1 * b2) + b0 * (c1 * a2 - a1 * c2) + c0 * (a1 * b2 - b1 * a2)) * v"
  by (simp add: algebra_simps)

lemma cramer_z:
  fixes a0 :: real
  shows "(a1 * b2 - b1 * a2) * (a0 * u + b0 * v + c0 * w)
       + (a2 * b0 - b2 * a0) * (a1 * u + b1 * v + c1 * w)
       + (a0 * b1 - b0 * a1) * (a2 * u + b2 * v + c2 * w)
       = (a0 * (b1 * c2 - c1 * b2) + b0 * (c1 * a2 - a1 * c2) + c0 * (a1 * b2 - b1 * a2)) * w"
  by (simp add: algebra_simps)


lemma determinant_eval:
  "Matrix3_determinant
     (normalMatrix \<lparr>normal = \<lparr>x = a0, y = b0, z = c0\<rparr>, distance = d0\<rparr>
        \<lparr>normal = \<lparr>x = a1, y = b1, z = c1\<rparr>, distance = d1\<rparr>
        \<lparr>normal = \<lparr>x = a2, y = b2, z = c2\<rparr>, distance = d2\<rparr>) =
   a0 * (b1 * c2 - c1 * b2) + b0 * (c1 * a2 - a1 * c2) + c0 * (a1 * b2 - b1 * a2)"
  by (simp add: Matrix3_determinant_def normalMatrix_def)

lemma unit_scale:
  fixes a :: real
  assumes "a * a + b * b + c * c = 1"
  shows "a * - d * a + b * - d * b + c * - d * c = - d"
proof -
  have "a * - d * a + b * - d * b + c * - d * c = - d * (a * a + b * b + c * c)"
    by (simp add: algebra_simps)
  then show ?thesis using assms by simp
qed

lemma computeIntersection_unit:
  assumes "a0 * a0 + b0 * b0 + c0 * c0 = 1" "a1 * a1 + b1 * b1 + c1 * c1 = 1"
    "a2 * a2 + b2 * b2 + c2 * c2 = 1"
  shows "computeIntersection \<lparr>normal = \<lparr>x = a0, y = b0, z = c0\<rparr>, distance = d0\<rparr>
      \<lparr>normal = \<lparr>x = a1, y = b1, z = c1\<rparr>, distance = d1\<rparr>
      \<lparr>normal = \<lparr>x = a2, y = b2, z = c2\<rparr>, distance = d2\<rparr> =
    \<lparr>x = ((b1 * c2 - c1 * b2) * - d0 + (b2 * c0 - c2 * b0) * - d1 + (b0 * c1 - c0 * b1) * - d2)
          / (a0 * (b1 * c2 - c1 * b2) + b0 * (c1 * a2 - a1 * c2) + c0 * (a1 * b2 - b1 * a2)),
     y = ((c1 * a2 - a1 * c2) * - d0 + (c2 * a0 - a2 * c0) * - d1 + (c0 * a1 - a0 * c1) * - d2)
          / (a0 * (b1 * c2 - c1 * b2) + b0 * (c1 * a2 - a1 * c2) + c0 * (a1 * b2 - b1 * a2)),
     z = ((a1 * b2 - b1 * a2) * - d0 + (a2 * b0 - b2 * a0) * - d1 + (a0 * b1 - b0 * a1) * - d2)
          / (a0 * (b1 * c2 - c1 * b2) + b0 * (c1 * a2 - a1 * c2) + c0 * (a1 * b2 - b1 * a2))\<rparr>"
  unfolding inter_eval Let_def
  by (simp only: unit_scale [OF assms(1)] unit_scale [OF assms(2)] unit_scale [OF assms(3)])



lemma formula_eval:
  "intersectionFormula \<lparr>normal = \<lparr>x = a0, y = b0, z = c0\<rparr>, distance = d0\<rparr>
      \<lparr>normal = \<lparr>x = a1, y = b1, z = c1\<rparr>, distance = d1\<rparr>
      \<lparr>normal = \<lparr>x = a2, y = b2, z = c2\<rparr>, distance = d2\<rparr> =
   (let D = a0 * (b1 * c2 - c1 * b2) + b0 * (c1 * a2 - a1 * c2) + c0 * (a1 * b2 - b1 * a2);
        k0 = (a0 * - d0) * a0 + (b0 * - d0) * b0 + (c0 * - d0) * c0;
        k1 = (a1 * - d1) * a1 + (b1 * - d1) * b1 + (c1 * - d1) * c1;
        k2 = (a2 * - d2) * a2 + (b2 * - d2) * b2 + (c2 * - d2) * c2
    in \<lparr>x = ((b1 * c2 - c1 * b2) * k0 + (b2 * c0 - c2 * b0) * k1 + (b0 * c1 - c0 * b1) * k2) * (1 / D),
        y = ((c1 * a2 - a1 * c2) * k0 + (c2 * a0 - a2 * c0) * k1 + (c0 * a1 - a0 * c1) * k2) * (1 / D),
        z = ((a1 * b2 - b1 * a2) * k0 + (a2 * b0 - b2 * a0) * k1 + (a0 * b1 - b0 * a1) * k2) * (1 / D)\<rparr>)"
  unfolding intersectionFormula_def Let_def determinant_eval
  by (simp only: Plane.simps vec_eval)

lemma intersectionFormula_eq: "intersectionFormula p0 p1 p2 = computeIntersection p0 p1 p2"
proof -
  obtain a0 b0 c0 d0 where p0: "p0 = \<lparr>normal = \<lparr>x = a0, y = b0, z = c0\<rparr>, distance = d0\<rparr>"
    by (rule plane_cases)
  obtain a1 b1 c1 d1 where p1: "p1 = \<lparr>normal = \<lparr>x = a1, y = b1, z = c1\<rparr>, distance = d1\<rparr>"
    by (rule plane_cases)
  obtain a2 b2 c2 d2 where p2: "p2 = \<lparr>normal = \<lparr>x = a2, y = b2, z = c2\<rparr>, distance = d2\<rparr>"
    by (rule plane_cases)
  show ?thesis
    unfolding p0 p1 p2 formula_eval inter_eval Let_def
    by (simp only: times_divide_eq_right mult_1_right)
qed

section \<open>The bottom plane\<close>

lemma foldl_min_step:
  fixes f :: "nat \<Rightarrow> real"
  shows "foldl (\<lambda>maxDistance i. let distance = f i
                 in if distance < maxDistance then distance else maxDistance) m js \<le> m
       \<and> (\<forall>i\<in>set js. foldl (\<lambda>maxDistance i. let distance = f i
                 in if distance < maxDistance then distance else maxDistance) m js \<le> f i)
       \<and> (foldl (\<lambda>maxDistance i. let distance = f i
                 in if distance < maxDistance then distance else maxDistance) m js = m
          \<or> (\<exists>i\<in>set js. foldl (\<lambda>maxDistance i. let distance = f i
                 in if distance < maxDistance then distance else maxDistance) m js = f i))"
proof (induction js arbitrary: m)
  case Nil
  show ?case by simp
next
  case (Cons j js)
  let ?step = "\<lambda>maxDistance i. let distance = f i
                 in if distance < maxDistance then distance else maxDistance"
  let ?m' = "if f j < m then f j else m"
  have unfold: "foldl ?step m (j # js) = foldl ?step ?m' js"
    by (simp add: Let_def)
  note IH = Cons.IH [of ?m']
  have m': "?m' \<le> m" "?m' \<le> f j" "?m' = m \<or> ?m' = f j" by auto
  from IH have a: "foldl ?step ?m' js \<le> ?m'" by blast
  from IH have b: "\<forall>i\<in>set js. foldl ?step ?m' js \<le> f i" by blast
  from IH have c: "foldl ?step ?m' js = ?m' \<or> (\<exists>i\<in>set js. foldl ?step ?m' js = f i)"
    by blast
  have 1: "foldl ?step m (j # js) \<le> m" unfolding unfold using a m'(1) by linarith
  have 2: "\<forall>i\<in>set (j # js). foldl ?step m (j # js) \<le> f i"
    unfolding unfold using a b m'(2) by auto
  have 3: "foldl ?step m (j # js) = m \<or> (\<exists>i\<in>set (j # js). foldl ?step m (j # js) = f i)"
    unfolding unfold using c m'(3) by auto
  from 1 2 3 show ?case by blast
qed

lemma computeMaxDistance_min:
  defines "d \<equiv> \<lambda>s2Cell minimumHeight ellipsoid topPlane i.
     Plane_getPointDistance topPlane (liftedCorner s2Cell minimumHeight ellipsoid i)"
  shows "computeMaxDistance s2Cell minimumHeight ellipsoid topPlane \<le> 0"
    and "i < 4 \<Longrightarrow> computeMaxDistance s2Cell minimumHeight ellipsoid topPlane
           \<le> d s2Cell minimumHeight ellipsoid topPlane i"
    and "computeMaxDistance s2Cell minimumHeight ellipsoid topPlane = 0
         \<or> (\<exists>i<4. computeMaxDistance s2Cell minimumHeight ellipsoid topPlane
                    = d s2Cell minimumHeight ellipsoid topPlane i)"
proof -
  note F = foldl_min_step [of "d s2Cell minimumHeight ellipsoid topPlane" 0 "[0..<4]"]
  have cm: "computeMaxDistance s2Cell minimumHeight ellipsoid topPlane =
      foldl (\<lambda>maxDistance i. let distance = d s2Cell minimumHeight ellipsoid topPlane i
                 in if distance < maxDistance then distance else maxDistance) 0 [0..<4]"
    by (simp only: computeMaxDistance_def d_def)
  show "computeMaxDistance s2Cell minimumHeight ellipsoid topPlane \<le> 0"
    unfolding cm using F by blast
  show "computeMaxDistance s2Cell minimumHeight ellipsoid topPlane
           \<le> d s2Cell minimumHeight ellipsoid topPlane i" if "i < 4"
  proof -
    have "i \<in> set [0..<4]" using that by simp
    then show ?thesis unfolding cm using F by blast
  qed
  show "computeMaxDistance s2Cell minimumHeight ellipsoid topPlane = 0
         \<or> (\<exists>i<4. computeMaxDistance s2Cell minimumHeight ellipsoid topPlane
                    = d s2Cell minimumHeight ellipsoid topPlane i)"
  proof -
    from F have "foldl (\<lambda>maxDistance i. let distance = d s2Cell minimumHeight ellipsoid topPlane i
                 in if distance < maxDistance then distance else maxDistance) 0 [0..<4] = 0
       \<or> (\<exists>i\<in>set [0..<4]. foldl (\<lambda>maxDistance i. let distance = d s2Cell minimumHeight ellipsoid topPlane i
                 in if distance < maxDistance then distance else maxDistance) 0 [0..<4]
              = d s2Cell minimumHeight ellipsoid topPlane i)"
      by blast
    then show ?thesis unfolding cm by auto
  qed
qed

lemma bottomPlane_distance:
  "Plane_getPointDistance (computeBottomPlane s2Cell minimumHeight ellipsoid topPlane) q =
     computeMaxDistance s2Cell minimumHeight ellipsoid topPlane
     - Plane_getPointDistance topPlane q"
  by (simp add: computeBottomPlane_def Let_def Plane_getPointDistance_def Cartesian3_negate_def
      Cartesian3_dot_def algebra_simps)

lemma computeBoundingPlanes_top_bottom:
  assumes "computeBoundingPlanes s2Cell minimumHeight maximumHeight ellipsoid = Inr planes"
  shows "planes ! 0 = computeTopPlane s2Cell maximumHeight ellipsoid"
    and "planes ! 1 = computeBottomPlane s2Cell minimumHeight ellipsoid
                        (computeTopPlane s2Cell maximumHeight ellipsoid)"
  using assms
  by (auto simp: computeBoundingPlanes_def Let_def split: sum.splits)

section \<open>The branches of the distance query\<close>

lemma distanceToCamera_three:
  assumes "length (selectedPlaneIndices (selectPlanes this point)) = 3"
  shows "distanceToCamera this point =
     (if selectedPlaneIndices (selectPlanes this point) ! 0 = 0
      then Inr (Cartesian3_distance point
             (this_vertices this ! (selectedPlaneIndices (selectPlanes this point) ! 1 mod 4)))
      else Inr (Cartesian3_distance point
             (this_vertices this !
                (4 + ((selectedPlaneIndices (selectPlanes this point) ! 0 + 1) mod 4)))))"
proof -
  have "selectedPlaneIndices (selectPlanes this point) \<noteq> []"
    using assms by auto
  then show ?thesis
    using assms by (simp add: distanceToCamera_def Let_def)
qed

lemma selected_top:
  "0 \<in> set (selectedPlaneIndices (selectPlanes this point)) \<longleftrightarrow> violated this point 0"
  by (auto simp: selected_char)

lemma selected_bottom:
  "1 \<in> set (selectedPlaneIndices (selectPlanes this point)) \<longleftrightarrow>
     \<not> violated this point 0 \<and> violated this point 1"
  by (auto simp: selected_char)

lemma box_planes_eq: "this_boundingPlanes box = boxPlanes"
  by (simp add: box_def)

lemma wedge_planes_eq: "this_boundingPlanes wedge = wedgePlanes"
  by (simp add: wedge_def)

lemma wedge_vertices_eq:
  "this_vertices wedge =
        [\<lparr>x = - 1, y = - (8 / 3), z = 2\<rparr>, \<lparr>x = 1, y = - (8 / 3), z = 2\<rparr>,
         \<lparr>x = 1, y = 8 / 3, z = 2\<rparr>, \<lparr>x = - 1, y = 8 / 3, z = 2\<rparr>,
         \<lparr>x = - 1, y = - (4 / 3), z = 1\<rparr>, \<lparr>x = 1, y = - (4 / 3), z = 1\<rparr>,
         \<lparr>x = 1, y = 4 / 3, z = 1\<rparr>, \<lparr>x = - 1, y = 4 / 3, z = 1\<rparr>]"
  by (simp add: wedge_def)

lemmas violated_eval = violated_def CesiumMath_greaterThan_def EPSILON14_def plane_dist_eval

lemma segment_eval:
  "closestPointLineSegment \<lparr>x = p, y = q, z = r\<rparr> \<lparr>x = a, y = b, z = c\<rparr> \<lparr>x = d, y = e, z = f\<rparr> =
     (let t = (d - a) * (p - a) + (e - b) * (q - b) + (f - c) * (r - c);
          dMag = (d - a) * (d - a) + (e - b) * (e - b) + (f - c) * (f - c)
      in if t \<le> 0 then \<lparr>x = a, y = b, z = c\<rparr>
         else if t \<ge> dMag then \<lparr>x = d, y = e, z = f\<rparr>
         else \<lparr>x = (1 - t / dMag) * a + t / dMag * d,
               y = (1 - t / dMag) * b + t / dMag * e,
               z = (1 - t / dMag) * c + t / dMag * f\<rparr>)"
  by (simp add: closestPointLineSegment_def Let_def vec_eval)

lemma sqrt_41_neq_5: "sqrt 41 \<noteq> 5"
proof
  assume "sqrt 41 = 5"
  then have "(sqrt 41)\<^sup>2 = 5\<^sup>2" by simp
  then show False by simp
qed

lemma sqrt_32_neq_5: "sqrt 32 \<noteq> 5"
proof
  assume "sqrt 32 = 5"
  then have "(sqrt 32)\<^sup>2 = 5\<^sup>2" by simp
  then show False by simp
qed

lemma box_selected_bottom_side0:
  "selectedPlaneIndices (selectPlanes box \<lparr>x = 1 / 2, y = - 3, z = - 4\<rparr>) = [1, 2]"
  by (simp add: selected_char violated_eval box_planes_eq boxPlanes_def del: One_nat_def)

lemma box_selected_side0_side3:
  "selectedPlaneIndices (selectPlanes box \<lparr>x = - 3, y = - 4, z = 1 / 2\<rparr>) = [2, 5]"
  by (simp add: selected_char violated_eval box_planes_eq boxPlanes_def del: One_nat_def)

lemma distanceToCamera_two:
  assumes "selectedPlaneIndices (selectPlanes this point) = [i, j]"
  shows "distanceToCamera this point =
     Inr (Cartesian3_distance
       (if i = 0
        then closestPointLineSegment point (this_vertices this ! ((j + 3) mod 4))
               (this_vertices this ! ((j + 2) mod 4))
        else if i = 1
        then closestPointLineSegment point (this_vertices this ! (j mod 4))
               (this_vertices this ! ((j + 1) mod 4))
        else closestPointLineSegment point (this_vertices this ! (4 + ((i + 3) mod 4)))
               (this_vertices this ! ((i + 3) mod 4))) point)"
  by (simp add: distanceToCamera_def Let_def assms)

lemma lifted_square_corner:
  "liftedCorner squareCell h flatEllipsoid i =
     (if i = 0 then \<lparr>x = 0, y = 0, z = h\<rparr>
      else if i = 1 then \<lparr>x = 1, y = 0, z = h\<rparr>
      else if i = 2 then \<lparr>x = 1, y = 1, z = h\<rparr>
      else \<lparr>x = 0, y = 1, z = h\<rparr>)"
  by (simp add: liftedCorner_def squareCell_def flatEllipsoid_def Let_def)

lemma box_selected_bottom_side0_side1:
  "selectedPlaneIndices (selectPlanes box \<lparr>x = 2, y = - 1, z = - 1\<rparr>) = [1, 2, 3]"
  by (simp add: selected_char violated_eval box_planes_eq boxPlanes_def del: One_nat_def)

lemma box_selected_top_side0_side1:
  "selectedPlaneIndices (selectPlanes box \<lparr>x = 2, y = - 1, z = 2\<rparr>) = [0, 2, 3]"
  by (simp add: selected_char violated_eval box_planes_eq boxPlanes_def del: One_nat_def)

lemma sqrt_6_neq_sqrt_3: "sqrt 6 \<noteq> sqrt 3"
  by simp

lemma closestPointPolygon_single_normal:
  "closestPointPolygon p (sideFaceVertices vs i) plane (SingleNormal n) dir = Inl TypeError"
  by (simp add: closestPointPolygon_def sideFaceVertices_def upt_rec)

lemma side_locals:
  assumes "violated this point 2 \<or> violated this point 3 \<or> violated this point 4
           \<or> violated this point 5"
  shows "\<exists>i. vertices (selectPlanes this point) = Some (sideFaceVertices (this_vertices this) i)
           \<and> edgeNormals (selectPlanes this point) = Some (this_edgeNormals this ! (2 + i))"
proof -
  let ?top = "selectTopBottom this point"
  let ?step = "selectSide this point"
  have sel: "selectPlanes this point = ?step (?step (?step (?step ?top 0) 1) 2) 3"
    by (simp add: selectPlanes_def upt_0_4)
  have hit: "vertices (?step l i) = Some (sideFaceVertices (this_vertices this) i)
           \<and> edgeNormals (?step l i) = Some (this_edgeNormals this ! (2 + i))"
    if "violated this point (2 + i)" for l i
    using that by (simp add: selectSide_def Let_def)
  have miss: "?step l i = l" if "\<not> violated this point (2 + i)" for l i
    using that by (simp add: selectSide_def Let_def)
  have v: "violated this point (2 + 0) \<or> violated this point (2 + 1)
           \<or> violated this point (2 + 2) \<or> violated this point (2 + 3)"
    using assms by simp
  show ?thesis
  proof (cases "violated this point (2 + 3)")
    case True
    from hit [OF True] show ?thesis unfolding sel by blast
  next
    case n3: False
    show ?thesis
    proof (cases "violated this point (2 + 2)")
      case True
      from hit [OF True] show ?thesis unfolding sel miss [OF n3] by blast
    next
      case n2: False
      show ?thesis
      proof (cases "violated this point (2 + 1)")
        case True
        from hit [OF True] show ?thesis unfolding sel miss [OF n3] miss [OF n2] by blast
      next
        case n1: False
        with v n2 n3 have "violated this point (2 + 0)" by blast
        from hit [OF this] show ?thesis
          unfolding sel miss [OF n3] miss [OF n2] miss [OF n1] by blast
      qed
    qed
  qed
qed

lemma distanceToCamera_more_than_three:
  assumes "length (selectedPlaneIndices (selectPlanes this point)) > 3"
  shows "distanceToCamera this point = Inl TypeError"
proof -
  let ?l = "selectPlanes this point"
  let ?sel = "selectedPlaneIndices ?l"
  have "length ?sel \<le> 1 + length (filter (violated this point) [2, 3, 4, 5])"
    by (simp add: selected_char)
  with assms have ne: "filter (violated this point) [2, 3, 4, 5] \<noteq> []"
    by (cases "filter (violated this point) [2, 3, 4, 5]") simp_all
  have "violated this point 2 \<or> violated this point 3 \<or> violated this point 4
           \<or> violated this point 5"
  proof (rule ccontr)
    assume "\<not> ?thesis"
    then have "filter (violated this point) [2, 3, 4, 5] = []" by simp
    with ne show False by simp
  qed
  from side_locals [OF this] obtain i where
    vs: "vertices ?l = Some (sideFaceVertices (this_vertices this) i)"
    and ens: "edgeNormals ?l = Some (this_edgeNormals this ! (2 + i))"
    by blast
  have branch: "distanceToCamera this point =
      (case (vertices ?l, edgeNormals ?l) of
              (Some vs, Some (n # ns)) \<Rightarrow>
                distanceToFacePoint
                  (closestPointPolygon
                     (Plane_projectPointOntoPlane (this_boundingPlanes this ! 0) point)
                     vs (this_boundingPlanes this ! 0) (SingleNormal n) 1) point
            | _ \<Rightarrow> Inl TypeError)"
  proof -
    have "?sel \<noteq> []" using assms by auto
    then show ?thesis using assms by (simp add: distanceToCamera_def Let_def)
  qed
  show ?thesis
    unfolding branch vs ens
    by (simp add: closestPointPolygon_single_normal distanceToFacePoint_def split: list.splits)
qed

lemma Number_MAX_VALUE_gt_1: "1 < Number_MAX_VALUE"
proof -
  have "(1::real) \<le> 2 - 1 / 2 ^ 52" by simp
  moreover have "(1::real) < 2 ^ 1023" by (rule one_less_power) simp_all
  ultimately have "1 * 1 < (2 - 1 / 2 ^ 52) * (2 ^ 1023 :: real)"
    by (intro mult_le_less_imp_less) simp_all
  then show ?thesis by (simp add: Number_MAX_VALUE_def)
qed

lemma wedge_selected_below:
  "selectedPlaneIndices (selectPlanes wedge \<lparr>x = 2, y = 0, z = - 1\<rparr>) = [1, 2, 3, 4]"
  by (simp add: selected_char violated_eval wedge_planes_eq wedgePlanes_def del: One_nat_def)

lemma wedge_bottom_face:
  "slice 4 8 (this_vertices wedge) =
     [\<lparr>x = - 1, y = - (4 / 3), z = 1\<rparr>, \<lparr>x = 1, y = - (4 / 3), z = 1\<rparr>,
      \<lparr>x = 1, y = 4 / 3, z = 1\<rparr>, \<lparr>x = - 1, y = 4 / 3, z = 1\<rparr>]"
  "this_edgeNormals wedge ! 1 =
     [\<lparr>x = 0, y = 1, z = 0\<rparr>, \<lparr>x = - 1, y = 0, z = 0\<rparr>,
      \<lparr>x = 0, y = - 1, z = 0\<rparr>, \<lparr>x = 1, y = 0, z = 0\<rparr>]"
  "this_boundingPlanes wedge ! 1 = \<lparr>normal = \<lparr>x = 0, y = 0, z = - 1\<rparr>, distance = 1\<rparr>"
  by (simp_all add: wedge_def wedgePlanes_def slice_def)

lemma project_eval:
  "Plane_projectPointOntoPlane \<lparr>normal = \<lparr>x = a, y = b, z = c\<rparr>, distance = d\<rparr>
     \<lparr>x = p, y = q, z = r\<rparr> =
   \<lparr>x = p - a * (a * p + b * q + c * r + d),
    y = q - b * (a * p + b * q + c * r + d),
    z = r - c * (a * p + b * q + c * r + d)\<rparr>"
  by (simp add: Plane_projectPointOntoPlane_def Let_def plane_dist_eval vec_eval)

lemma edge_plane_eval:
  "Plane_getPointDistance (Plane_fromPointNormal \<lparr>x = a, y = b, z = c\<rparr> \<lparr>x = d, y = e, z = f\<rparr>)
     \<lparr>x = p, y = q, z = r\<rparr> = d * p + e * q + f * r - (d * a + e * b + f * c)"
  by (simp add: Plane_fromPointNormal_def plane_dist_eval vec_eval)

lemma wedge_bottom_expected:
  "distanceToFacePoint
     (closestPointPolygon
        (Plane_projectPointOntoPlane (this_boundingPlanes wedge ! 1) \<lparr>x = 2, y = 0, z = - 1\<rparr>)
        (slice 4 8 (this_vertices wedge)) (this_boundingPlanes wedge ! 1)
        (NormalArray (this_edgeNormals wedge ! 1)) 1)
     \<lparr>x = 2, y = 0, z = - 1\<rparr> = Inr (sqrt 5)"
  unfolding wedge_bottom_face project_eval
  using Number_MAX_VALUE_gt_1
  by (simp add: closestPointPolygon_def upt_rec edge_plane_eval segment_eval v_dist
      distanceToFacePoint_def Let_def)

section \<open>Three planes meet in one point\<close>

lemma computeIntersection_cramer:
  assumes unit: "Cartesian3_magnitude (normal p0) = 1" "Cartesian3_magnitude (normal p1) = 1"
      "Cartesian3_magnitude (normal p2) = 1"
    and det: "Matrix3_determinant (normalMatrix p0 p1 p2) \<noteq> 0"
  shows "Plane_getPointDistance p0 (computeIntersection p0 p1 p2) = 0
       \<and> Plane_getPointDistance p1 (computeIntersection p0 p1 p2) = 0
       \<and> Plane_getPointDistance p2 (computeIntersection p0 p1 p2) = 0
       \<and> (\<forall>v. Plane_getPointDistance p0 v = 0 \<and> Plane_getPointDistance p1 v = 0
              \<and> Plane_getPointDistance p2 v = 0 \<longrightarrow> v = computeIntersection p0 p1 p2)
       \<and> computeIntersection p0 p1 p2 = intersectionFormula p0 p1 p2"
proof -
  obtain a0 b0 c0 d0 where p0: "p0 = \<lparr>normal = \<lparr>x = a0, y = b0, z = c0\<rparr>, distance = d0\<rparr>"
    by (rule plane_cases)
  obtain a1 b1 c1 d1 where p1: "p1 = \<lparr>normal = \<lparr>x = a1, y = b1, z = c1\<rparr>, distance = d1\<rparr>"
    by (rule plane_cases)
  obtain a2 b2 c2 d2 where p2: "p2 = \<lparr>normal = \<lparr>x = a2, y = b2, z = c2\<rparr>, distance = d2\<rparr>"
    by (rule plane_cases)
  define D where "D = a0 * (b1 * c2 - c1 * b2) + b0 * (c1 * a2 - a1 * c2) + c0 * (a1 * b2 - b1 * a2)"
  define Nx where "Nx = (b1 * c2 - c1 * b2) * - d0 + (b2 * c0 - c2 * b0) * - d1 + (b0 * c1 - c0 * b1) * - d2"
  define Ny where "Ny = (c1 * a2 - a1 * c2) * - d0 + (c2 * a0 - a2 * c0) * - d1 + (c0 * a1 - a0 * c1) * - d2"
  define Nz where "Nz = (a1 * b2 - b1 * a2) * - d0 + (a2 * b0 - b2 * a0) * - d1 + (a0 * b1 - b0 * a1) * - d2"
  have u0: "a0 * a0 + b0 * b0 + c0 * c0 = 1" using unit(1) by (simp add: p0 unit_components)
  have u1: "a1 * a1 + b1 * b1 + c1 * c1 = 1" using unit(2) by (simp add: p1 unit_components)
  have u2: "a2 * a2 + b2 * b2 + c2 * c2 = 1" using unit(3) by (simp add: p2 unit_components)
  have D: "D \<noteq> 0" using det unfolding p0 p1 p2 determinant_eval D_def .
  have X: "computeIntersection p0 p1 p2 = \<lparr>x = Nx / D, y = Ny / D, z = Nz / D\<rparr>"
    unfolding p0 p1 p2 computeIntersection_unit [OF u0 u1 u2] D_def Nx_def Ny_def Nz_def ..
  have r0: "a0 * Nx + b0 * Ny + c0 * Nz = - d0 * D"
    unfolding Nx_def Ny_def Nz_def D_def by (rule cramer_row0)
  have r1: "a1 * Nx + b1 * Ny + c1 * Nz = - d1 * D"
    unfolding Nx_def Ny_def Nz_def D_def by (rule cramer_row1)
  have r2: "a2 * Nx + b2 * Ny + c2 * Nz = - d2 * D"
    unfolding Nx_def Ny_def Nz_def D_def by (rule cramer_row2)
  have on_plane: "a * (Nx / D) + b * (Ny / D) + c * (Nz / D) + d = 0"
    if "a * Nx + b * Ny + c * Nz = - d * D" for a b c d
  proof -
    have "a * (Nx / D) + b * (Ny / D) + c * (Nz / D) = (a * Nx + b * Ny + c * Nz) / D"
      by (simp add: add_divide_distrib)
    also have "\<dots> = - d" using that D by simp
    finally show ?thesis by simp
  qed
  have s0: "Plane_getPointDistance p0 (computeIntersection p0 p1 p2) = 0"
    unfolding X unfolding p0 plane_dist_eval by (rule on_plane [OF r0])
  have s1: "Plane_getPointDistance p1 (computeIntersection p0 p1 p2) = 0"
    unfolding X unfolding p1 plane_dist_eval by (rule on_plane [OF r1])
  have s2: "Plane_getPointDistance p2 (computeIntersection p0 p1 p2) = 0"
    unfolding X unfolding p2 plane_dist_eval by (rule on_plane [OF r2])
  have uniq: "v = computeIntersection p0 p1 p2"
    if h: "Plane_getPointDistance p0 v = 0" "Plane_getPointDistance p1 v = 0"
      "Plane_getPointDistance p2 v = 0" for v
  proof -
    obtain u1' u2' u3' where v: "v = \<lparr>x = u1', y = u2', z = u3'\<rparr>"
      by (rule vector_cases)
    have e0: "- d0 = a0 * u1' + b0 * u2' + c0 * u3'"
      using h(1) unfolding p0 v plane_dist_eval by linarith
    have e1: "- d1 = a1 * u1' + b1 * u2' + c1 * u3'"
      using h(2) unfolding p1 v plane_dist_eval by linarith
    have e2: "- d2 = a2 * u1' + b2 * u2' + c2 * u3'"
      using h(3) unfolding p2 v plane_dist_eval by linarith
    have "Nx = D * u1'" unfolding Nx_def D_def e0 e1 e2 by (rule cramer_x)
    then have x: "Nx / D = u1'" using D by simp
    have "Ny = D * u2'" unfolding Ny_def D_def e0 e1 e2 by (rule cramer_y)
    then have y: "Ny / D = u2'" using D by simp
    have "Nz = D * u3'" unfolding Nz_def D_def e0 e1 e2 by (rule cramer_z)
    then have z: "Nz / D = u3'" using D by simp
    show ?thesis unfolding X v using x y z by simp
  qed
  have formula: "computeIntersection p0 p1 p2 = intersectionFormula p0 p1 p2"
    by (simp only: intersectionFormula_eq)
  from s0 s1 s2 uniq formula show ?thesis by blast
qed

section \<open>A single selected plane\<close>

lemma single_selection_locals:
  assumes "selectedPlaneIndices (selectPlanes this point) = [k]"
  shows "k < 6 \<and> violated this point k
       \<and> vertices (selectPlanes this point) = Some (faceVertices (this_vertices this) k)
       \<and> edgeNormals (selectPlanes this point) = Some (this_edgeNormals this ! k)
       \<and> rotation (selectPlanes this point) = Some (if k = 1 then 1 else - 1)"
proof -
  let ?top = "selectTopBottom this point"
  let ?step = "selectSide this point"
  have unfold: "selectPlanes this point = ?step (?step (?step (?step ?top 0) 1) 2) 3"
    by (simp add: selectPlanes_def upt_0_4)
  have miss: "?step l i = l" if "\<not> violated this point (2 + i)" for l i
    using that by (simp add: selectSide_def Let_def)
  have hit: "?step l i = \<lparr>selectedPlaneIndices = selectedPlaneIndices l @ [2 + i],
               vertices = Some (sideFaceVertices (this_vertices this) i),
               edgeNormals = Some (this_edgeNormals this ! (2 + i)),
               rotation = Some (- 1)\<rparr>" if "violated this point (2 + i)" for l i
    using that by (simp add: selectSide_def Let_def)
  have "(if violated this point 0 then [0] else if violated this point 1 then [1] else [])
     @ filter (violated this point) [2, 3, 4, 5] = [k]"
    using assms by (simp only: selected_char)
  moreover have "[2, 3, 4, 5] = [2 + 0, 2 + 1, 2 + 2, 2 + (3::nat)]" by simp
  ultimately have char:
    "(if violated this point 0 then [0] else if violated this point 1 then [1] else [])
     @ filter (violated this point) [2 + 0, 2 + 1, 2 + 2, 2 + 3] = [k]"
    by (simp only:)
  consider (top) "violated this point 0" | (bottom) "\<not> violated this point 0" "violated this point 1"
    | (none) "\<not> violated this point 0" "\<not> violated this point 1"
    by blast
  then show ?thesis
  proof cases
    case top
    from char top have "[0] @ filter (violated this point) [2 + 0, 2 + 1, 2 + 2, 2 + 3] = [k]"
      by (simp only: if_True)
    then have k: "k = 0" and f: "filter (violated this point) [2 + 0, 2 + 1, 2 + 2, 2 + 3] = []"
      by (simp_all only: append_Cons append_Nil list.inject)
    from f have n: "\<not> violated this point (2 + 0)" "\<not> violated this point (2 + 1)"
      "\<not> violated this point (2 + 2)" "\<not> violated this point (2 + 3)"
      by (simp_all only: filter_empty_conv list.set insert_iff simp_thms)
    have "selectPlanes this point = ?top"
      unfolding unfold by (simp only: miss [OF n(1)] miss [OF n(2)] miss [OF n(3)] miss [OF n(4)])
    then show ?thesis using top k by (simp add: selectTopBottom_def faceVertices_def)
  next
    case bottom
    from char bottom have "[1] @ filter (violated this point) [2 + 0, 2 + 1, 2 + 2, 2 + 3] = [k]"
      by (simp only: if_True if_False)
    then have k: "k = 1" and f: "filter (violated this point) [2 + 0, 2 + 1, 2 + 2, 2 + 3] = []"
      by (simp_all only: append_Cons append_Nil list.inject)
    from f have n: "\<not> violated this point (2 + 0)" "\<not> violated this point (2 + 1)"
      "\<not> violated this point (2 + 2)" "\<not> violated this point (2 + 3)"
      by (simp_all only: filter_empty_conv list.set insert_iff simp_thms)
    have "selectPlanes this point = ?top"
      unfolding unfold by (simp only: miss [OF n(1)] miss [OF n(2)] miss [OF n(3)] miss [OF n(4)])
    then show ?thesis using bottom k by (simp add: selectTopBottom_def faceVertices_def)
  next
    case none
    from char none have f: "filter (violated this point) [2 + 0, 2 + 1, 2 + 2, 2 + 3] = [k]"
      by (simp only: if_False append_Nil)
    have cases4: "(k = 2 + 0 \<and> violated this point (2 + 0) \<and> \<not> violated this point (2 + 1)
            \<and> \<not> violated this point (2 + 2) \<and> \<not> violated this point (2 + 3))
        \<or> (k = 2 + 1 \<and> \<not> violated this point (2 + 0) \<and> violated this point (2 + 1)
            \<and> \<not> violated this point (2 + 2) \<and> \<not> violated this point (2 + 3))
        \<or> (k = 2 + 2 \<and> \<not> violated this point (2 + 0) \<and> \<not> violated this point (2 + 1)
            \<and> violated this point (2 + 2) \<and> \<not> violated this point (2 + 3))
        \<or> (k = 2 + 3 \<and> \<not> violated this point (2 + 0) \<and> \<not> violated this point (2 + 1)
            \<and> \<not> violated this point (2 + 2) \<and> violated this point (2 + 3))"
      using f by (simp only: filter.simps split: if_splits) auto
    have fin: "k < 6 \<and> violated this point k
       \<and> vertices (?step l i) = Some (faceVertices (this_vertices this) k)
       \<and> edgeNormals (?step l i) = Some (this_edgeNormals this ! k)
       \<and> rotation (?step l i) = Some (if k = 1 then 1 else - 1)"
      if "k = 2 + i" "i < 4" "violated this point (2 + i)" for l i
      using that by (simp add: hit [OF that(3)] faceVertices_def)
    from cases4 show ?thesis
    proof (elim disjE conjE)
      assume h: "k = 2 + 0" "violated this point (2 + 0)" "\<not> violated this point (2 + 1)"
        "\<not> violated this point (2 + 2)" "\<not> violated this point (2 + 3)"
      have "selectPlanes this point = ?step ?top 0"
        unfolding unfold by (simp only: miss [OF h(3)] miss [OF h(4)] miss [OF h(5)])
      then show ?thesis using fin [OF h(1) _ h(2), of ?top] by simp
    next
      assume h: "k = 2 + 1" "\<not> violated this point (2 + 0)" "violated this point (2 + 1)"
        "\<not> violated this point (2 + 2)" "\<not> violated this point (2 + 3)"
      have "selectPlanes this point = ?step ?top 1"
        unfolding unfold by (simp only: miss [OF h(2)] miss [OF h(4)] miss [OF h(5)])
      then show ?thesis using fin [OF h(1) _ h(3), of ?top] by simp
    next
      assume h: "k = 2 + 2" "\<not> violated this point (2 + 0)" "\<not> violated this point (2 + 1)"
        "violated this point (2 + 2)" "\<not> violated this point (2 + 3)"
      have "selectPlanes this point = ?step ?top 2"
        unfolding unfold by (simp only: miss [OF h(2)] miss [OF h(3)] miss [OF h(5)])
      then show ?thesis using fin [OF h(1) _ h(4), of ?top] by simp
    next
      assume h: "k = 2 + 3" "\<not> violated this point (2 + 0)" "\<not> violated this point (2 + 1)"
        "\<not> violated this point (2 + 2)" "violated this point (2 + 3)"
      have "selectPlanes this point = ?step ?top 3"
        unfolding unfold by (simp only: miss [OF h(2)] miss [OF h(3)] miss [OF h(4)])
      then show ?thesis using fin [OF h(1) _ h(5), of ?top] by simp
    qed
  qed
qed

lemma distanceToCamera_one:
  assumes "selectedPlaneIndices (selectPlanes this point) = [k]"
  shows "distanceToCamera this point =
     distanceToFacePoint
       (closestPointPolygon (Plane_projectPointOntoPlane (this_boundingPlanes this ! k) point)
          (faceVertices (this_vertices this) k) (this_boundingPlanes this ! k)
          (NormalArray (this_edgeNormals this ! k)) (if k = 1 then 1 else - 1)) point"
  using single_selection_locals [OF assms] assms
  by (simp add: distanceToCamera_def Let_def)

lemma collect_length: "collect f js = Inr vs \<Longrightarrow> length vs = length js"
  by (induction js arbitrary: vs) (auto split: sum.splits)

lemma collect_nth:
  "collect f js = Inr vs \<Longrightarrow> i < length js \<Longrightarrow> f (js ! i) = Inr (vs ! i)"
proof (induction js arbitrary: vs i)
  case Nil
  then show ?case by simp
next
  case (Cons j js)
  then show ?case
    by (cases i) (auto split: sum.splits)
qed

lemma computeEdgeNormals_length: "computeEdgeNormals plane vs = Inr ns \<Longrightarrow> length ns = 4"
  unfolding computeEdgeNormals_def by (drule collect_length) simp

lemma built_fields:
  assumes "computeFaceData planes = Inr (vs, ns)"
  shows "vs = computeVertices planes"
    and "k < 6 \<Longrightarrow> length (ns ! k) = 4"
proof -
  from assms obtain en0 en1 ens where
    e0: "computeEdgeNormals (planes ! 0) (slice 0 4 (computeVertices planes)) = Inr en0"
    and e1: "computeEdgeNormals (planes ! 1) (slice 4 8 (computeVertices planes)) = Inr en1"
    and es: "collect (\<lambda>i. computeEdgeNormals (planes ! (2 + i))
                       (sideFaceVertices (computeVertices planes) i)) [0..<4] = Inr ens"
    and built: "vs = computeVertices planes" "ns = [en0, en1] @ ens"
    by (auto simp: computeFaceData_def Let_def split: sum.splits)
  show "vs = computeVertices planes" by (rule built(1))
  show "length (ns ! k) = 4" if "k < 6"
  proof -
    have len: "length ens = 4" using collect_length [OF es] by simp
    consider "k = 0" | "k = 1" | "2 \<le> k" by linarith
    then show ?thesis
    proof cases
      case 1
      then show ?thesis using computeEdgeNormals_length [OF e0] by (simp add: built(2))
    next
      case 2
      then show ?thesis using computeEdgeNormals_length [OF e1] by (simp add: built(2))
    next
      case 3
      define i where "i = k - 2"
      have k: "k = 2 + i" and i: "i < 4"
        using 3 that by (simp_all add: i_def)
      have "computeEdgeNormals (planes ! (2 + i)) (sideFaceVertices (computeVertices planes) i)
            = Inr (ens ! i)"
        using collect_nth [OF es, of i] i by simp
      then have "length (ens ! i) = 4" by (rule computeEdgeNormals_length)
      moreover have "ns ! k = ens ! i"
        by (simp add: built(2) k)
      ultimately show ?thesis by simp
    qed
  qed
qed

lemma side_index_arith:
  "2 + ((0 + 3) mod 4) = (5::nat)" "2 + 0 mod 4 = (2::nat)"
  "2 + ((1 + 3) mod 4) = (2::nat)" "2 + 1 mod 4 = (3::nat)"
  "2 + ((2 + 3) mod 4) = (3::nat)" "2 + 2 mod 4 = (4::nat)"
  "2 + ((3 + 3) mod 4) = (4::nat)" "2 + 3 mod 4 = (5::nat)"
  by simp_all

lemma computeVertices_list:
  "computeVertices planes =
     [computeIntersection (planes ! 0) (planes ! 5) (planes ! 2),
      computeIntersection (planes ! 0) (planes ! 2) (planes ! 3),
      computeIntersection (planes ! 0) (planes ! 3) (planes ! 4),
      computeIntersection (planes ! 0) (planes ! 4) (planes ! 5),
      computeIntersection (planes ! 1) (planes ! 5) (planes ! 2),
      computeIntersection (planes ! 1) (planes ! 2) (planes ! 3),
      computeIntersection (planes ! 1) (planes ! 3) (planes ! 4),
      computeIntersection (planes ! 1) (planes ! 4) (planes ! 5)]"
  by (simp only: computeVertices_def upt_0_4 list.map append_Cons append_Nil side_index_arith)


lemma faceVertices_list:
  "faceVertices [v0, v1, v2, v3, v4, v5, v6, v7] 0 = [v0, v1, v2, v3]"
  "faceVertices [v0, v1, v2, v3, v4, v5, v6, v7] 1 = [v4, v5, v6, v7]"
  "faceVertices [v0, v1, v2, v3, v4, v5, v6, v7] 2 = [v0, v4, v5, v1]"
  "faceVertices [v0, v1, v2, v3, v4, v5, v6, v7] 3 = [v1, v5, v6, v2]"
  "faceVertices [v0, v1, v2, v3, v4, v5, v6, v7] 4 = [v2, v6, v7, v3]"
  "faceVertices [v0, v1, v2, v3, v4, v5, v6, v7] 5 = [v3, v7, v4, v0]"
  by (simp_all add: faceVertices_def slice_def sideFaceVertices_def)

lemma intersection_onPlane:
  assumes "Cartesian3_magnitude (normal p0) = 1" "Cartesian3_magnitude (normal p1) = 1"
      "Cartesian3_magnitude (normal p2) = 1"
    and "Matrix3_determinant (normalMatrix p0 p1 p2) \<noteq> 0"
  shows "onPlane p0 (computeIntersection p0 p1 p2)"
    and "onPlane p1 (computeIntersection p0 p1 p2)"
    and "onPlane p2 (computeIntersection p0 p1 p2)"
  unfolding onPlane_def using computeIntersection_cramer [OF assms] by blast+

lemma face_vertices_onPlane:
  assumes unit: "\<forall>j<6. Cartesian3_magnitude (normal (planes ! j)) = 1"
    and det: "\<forall>i<4.
        Matrix3_determinant (normalMatrix (planes ! 0) (planes ! (2 + ((i + 3) mod 4)))
                               (planes ! (2 + i mod 4))) \<noteq> 0
      \<and> Matrix3_determinant (normalMatrix (planes ! 1) (planes ! (2 + ((i + 3) mod 4)))
                               (planes ! (2 + i mod 4))) \<noteq> 0"
    and k: "k < 6"
  shows "list_all (onPlane (planes ! k)) (faceVertices (computeVertices planes) k)"
proof -
  from unit have u: "Cartesian3_magnitude (normal (planes ! 0)) = 1"
    "Cartesian3_magnitude (normal (planes ! 1)) = 1"
    "Cartesian3_magnitude (normal (planes ! 2)) = 1"
    "Cartesian3_magnitude (normal (planes ! 3)) = 1"
    "Cartesian3_magnitude (normal (planes ! 4)) = 1"
    "Cartesian3_magnitude (normal (planes ! 5)) = 1"
    by (simp_all add: all_less_6)
  note idx = side_index_arith
  have lt: "(0::nat) < 4" "(1::nat) < 4" "(2::nat) < 4" "(3::nat) < 4"
    by simp_all
  note d0 = det [rule_format, OF lt(1), unfolded idx]
  note d1 = det [rule_format, OF lt(2), unfolded idx]
  note d2 = det [rule_format, OF lt(3), unfolded idx]
  note d3 = det [rule_format, OF lt(4), unfolded idx]
  note d = d0 [THEN conjunct1] d1 [THEN conjunct1] d2 [THEN conjunct1] d3 [THEN conjunct1]
    d0 [THEN conjunct2] d1 [THEN conjunct2] d2 [THEN conjunct2] d3 [THEN conjunct2]
  note v0 = intersection_onPlane [OF u(1) u(6) u(3) d(1)]
  note v1 = intersection_onPlane [OF u(1) u(3) u(4) d(2)]
  note v2 = intersection_onPlane [OF u(1) u(4) u(5) d(3)]
  note v3 = intersection_onPlane [OF u(1) u(5) u(6) d(4)]
  note v4 = intersection_onPlane [OF u(2) u(6) u(3) d(5)]
  note v5 = intersection_onPlane [OF u(2) u(3) u(4) d(6)]
  note v6 = intersection_onPlane [OF u(2) u(4) u(5) d(7)]
  note v7 = intersection_onPlane [OF u(2) u(5) u(6) d(8)]
  from k consider "k = 0" | "k = 1" | "k = 2" | "k = 3" | "k = 4" | "k = 5"
    by linarith
  then show ?thesis
  proof cases
    case 1
    show ?thesis
      unfolding \<open>k = 0\<close>
      using v0(1) v1(1) v2(1) v3(1)
      by (simp only: computeVertices_list faceVertices_list list.pred_inject simp_thms)
  next
    case 2
    show ?thesis
      unfolding \<open>k = 1\<close>
      using v4(1) v5(1) v6(1) v7(1)
      by (simp only: computeVertices_list faceVertices_list list.pred_inject simp_thms)
  next
    case 3
    show ?thesis
      unfolding \<open>k = 2\<close>
      using v0(3) v4(3) v5(2) v1(2)
      by (simp only: computeVertices_list faceVertices_list list.pred_inject simp_thms)
  next
    case 4
    show ?thesis
      unfolding \<open>k = 3\<close>
      using v1(3) v5(3) v6(2) v2(2)
      by (simp only: computeVertices_list faceVertices_list list.pred_inject simp_thms)
  next
    case 5
    show ?thesis
      unfolding \<open>k = 4\<close>
      using v2(3) v6(3) v7(2) v3(2)
      by (simp only: computeVertices_list faceVertices_list list.pred_inject simp_thms)
  next
    case 6
    show ?thesis
      unfolding \<open>k = 5\<close>
      using v3(3) v7(3) v4(2) v0(2)
      by (simp only: computeVertices_list faceVertices_list list.pred_inject simp_thms)
  qed
qed

lemma faceVertices_length:
  "length vs = 8 \<Longrightarrow> length (faceVertices vs k) = 4"
  by (simp add: faceVertices_def slice_def sideFaceVertices_def)

lemma computeVertices_length: "length (computeVertices planes) = 8"
  by (simp add: computeVertices_list)

lemma onPlane_components:
  "onPlane \<lparr>normal = \<lparr>x = a, y = b, z = c\<rparr>, distance = d\<rparr> \<lparr>x = p, y = q, z = r\<rparr>
     \<longleftrightarrow> a * p + b * q + c * r + d = 0"
  by (simp add: onPlane_def plane_dist_eval)

lemma segment_onPlane:
  assumes "onPlane plane l0" "onPlane plane l1"
  shows "onPlane plane (closestPointLineSegment p l0 l1)"
proof -
  obtain a b c d where pl: "plane = \<lparr>normal = \<lparr>x = a, y = b, z = c\<rparr>, distance = d\<rparr>"
    by (rule plane_cases)
  obtain a0 b0 c0 where l0: "l0 = \<lparr>x = a0, y = b0, z = c0\<rparr>" by (rule vector_cases)
  obtain a1 b1 c1 where l1: "l1 = \<lparr>x = a1, y = b1, z = c1\<rparr>" by (rule vector_cases)
  have e0: "a * a0 + b * b0 + c * c0 + d = 0"
    using assms(1) unfolding pl l0 onPlane_components .
  have e1: "a * a1 + b * b1 + c * c1 + d = 0"
    using assms(2) unfolding pl l1 onPlane_components .
  have mix: "a * ((1 - t) * a0 + t * a1) + b * ((1 - t) * b0 + t * b1)
             + c * ((1 - t) * c0 + t * c1) + d = 0" for t
  proof -
    have "a * ((1 - t) * a0 + t * a1) + b * ((1 - t) * b0 + t * b1)
             + c * ((1 - t) * c0 + t * c1) + d
          = (1 - t) * (a * a0 + b * b0 + c * c0 + d) + t * (a * a1 + b * b1 + c * c1 + d)"
      by (simp add: algebra_simps)
    then show ?thesis by (simp only: e0 e1 mult_zero_right add_0_left)
  qed
  define t where "t = Cartesian3_dot (Cartesian3_subtract l1 l0) (Cartesian3_subtract p l0)"
  define dm where "dm = Cartesian3_dot (Cartesian3_subtract l1 l0) (Cartesian3_subtract l1 l0)"
  have unfold: "closestPointLineSegment p l0 l1 =
      (if t \<le> 0 then l0 else if t \<ge> dm then l1
       else \<lparr>x = (1 - t / dm) * x l0 + t / dm * x l1,
             y = (1 - t / dm) * y l0 + t / dm * y l1,
             z = (1 - t / dm) * z l0 + t / dm * z l1\<rparr>)"
    by (simp add: closestPointLineSegment_def Let_def t_def dm_def)
  consider (low) "t \<le> 0" | (high) "\<not> t \<le> 0" "t \<ge> dm" | (mid) "\<not> t \<le> 0" "\<not> t \<ge> dm"
    by blast
  then show ?thesis
  proof cases
    case low
    then show ?thesis using assms(1) by (simp add: unfold)
  next
    case high
    then show ?thesis using assms(2) by (simp add: unfold)
  next
    case mid
    from mid have "closestPointLineSegment p l0 l1 =
               \<lparr>x = (1 - t / dm) * a0 + t / dm * a1, y = (1 - t / dm) * b0 + t / dm * b1,
                z = (1 - t / dm) * c0 + t / dm * c1\<rparr>"
      unfolding unfold by (simp add: l0 l1)
    then show ?thesis unfolding pl using mix [of "t / dm"] by (simp only: onPlane_components)
  qed
qed

lemma closestPointPolygon_loop_onPlane:
  assumes "\<forall>i\<in>set js. i < length ens \<and> onPlane plane (vs ! i)
             \<and> onPlane plane (vs ! ((i + 1) mod 4))"
    and "\<forall>c. cp = Some c \<longrightarrow> onPlane plane c"
  shows "\<exists>m' cp'. closestPointPolygon_loop p vs (NormalArray ens) dir js (m, cp) = Inr (m', cp')
           \<and> (\<forall>c. cp' = Some c \<longrightarrow> onPlane plane c)"
  using assms
proof (induction js arbitrary: m cp)
  case Nil
  then show ?case by simp
next
  case (Cons j js)
  from Cons.prems(1) have j: "j < length ens" "onPlane plane (vs ! j)"
    "onPlane plane (vs ! ((j + 1) mod 4))"
    and rest: "\<forall>i\<in>set js. i < length ens \<and> onPlane plane (vs ! i)
             \<and> onPlane plane (vs ! ((i + 1) mod 4))"
    by simp_all
  let ?e = "closestPointLineSegment p (vs ! j) (vs ! ((j + 1) mod 4))"
  have e: "\<forall>c. Some ?e = Some c \<longrightarrow> onPlane plane c"
    using segment_onPlane [OF j(2) j(3)] by simp
  note keep = Cons.IH [OF rest Cons.prems(2), of m]
  note take = Cons.IH [OF rest e, of "Cartesian3_distance p ?e"]
  show ?case
    using j(1) keep take by (simp add: Let_def)
qed

lemma closestPointPolygon_onPlane:
  assumes vs: "length vs = 4" "list_all (onPlane plane) vs"
    and ens: "length ens = 4"
    and p: "onPlane plane p"
  shows "\<exists>F. closestPointPolygon p vs plane' (NormalArray ens) dir = Inr F \<and> onPlane plane F"
proof -
  have on: "onPlane plane (vs ! i)" if "i < 4" for i
    using vs that by (simp add: list_all_length)
  have "\<forall>i\<in>set [0..<length vs]. i < length ens \<and> onPlane plane (vs ! i)
             \<and> onPlane plane (vs ! ((i + 1) mod 4))"
    using vs(1) ens on by simp
  moreover have "\<forall>c. (None :: Cartesian3 option) = Some c \<longrightarrow> onPlane plane c"
    by simp
  ultimately obtain m' cp' where
    loop: "closestPointPolygon_loop p vs (NormalArray ens) dir [0..<length vs]
             (Number_MAX_VALUE, None) = Inr (m', cp')"
    and cp': "\<forall>c. cp' = Some c \<longrightarrow> onPlane plane c"
    using closestPointPolygon_loop_onPlane by blast
  show ?thesis
  proof (cases cp')
    case None
    then show ?thesis using loop p by (simp add: closestPointPolygon_def)
  next
    case (Some c)
    then show ?thesis using loop cp' by (simp add: closestPointPolygon_def)
  qed
qed

lemma unit_shift:
  fixes a :: real
  assumes "a * a + b * b + c * c = 1"
  shows "a * (p + a * t) + b * (q + b * t) + c * (r + c * t) + d
         = (a * p + b * q + c * r + d) + t"
proof -
  have "a * (p + a * t) + b * (q + b * t) + c * (r + c * t) + d
        = (a * p + b * q + c * r + d) + t * (a * a + b * b + c * c)"
    by (simp add: algebra_simps)
  then show ?thesis by (simp only: assms mult_1_right)
qed

lemma project_onPlane:
  assumes "Cartesian3_magnitude (normal plane) = 1"
  shows "onPlane plane (Plane_projectPointOntoPlane plane point)"
proof -
  obtain a b c d where pl: "plane = \<lparr>normal = \<lparr>x = a, y = b, z = c\<rparr>, distance = d\<rparr>"
    by (rule plane_cases)
  obtain p q r where pt: "point = \<lparr>x = p, y = q, z = r\<rparr>" by (rule vector_cases)
  have u: "a * a + b * b + c * c = 1" using assms by (simp add: pl unit_components)
  define s where "s = a * p + b * q + c * r + d"
  have "a * (p - a * s) + b * (q - b * s) + c * (r - c * s) + d
        = s - s * (a * a + b * b + c * c)"
    by (simp add: s_def algebra_simps)
  then have "a * (p - a * s) + b * (q - b * s) + c * (r - c * s) + d = 0"
    by (simp only: u mult_1_right diff_self)
  then show ?thesis
    unfolding pl pt project_eval onPlane_components s_def .
qed

lemma project_moved:
  assumes "Cartesian3_magnitude (normal plane) = 1"
  shows "Plane_projectPointOntoPlane plane
           (Cartesian3_add point (Cartesian3_multiplyByScalar (normal plane) t))
         = Plane_projectPointOntoPlane plane point"
proof -
  obtain a b c d where pl: "plane = \<lparr>normal = \<lparr>x = a, y = b, z = c\<rparr>, distance = d\<rparr>"
    by (rule plane_cases)
  obtain p q r where pt: "point = \<lparr>x = p, y = q, z = r\<rparr>" by (rule vector_cases)
  have u: "a * a + b * b + c * c = 1" using assms by (simp add: pl unit_components)
  define s where "s = a * p + b * q + c * r + d"
  have moved: "Cartesian3_add point (Cartesian3_multiplyByScalar (normal plane) t)
               = \<lparr>x = p + a * t, y = q + b * t, z = r + c * t\<rparr>"
    by (simp add: pl pt vec_eval)
  have s': "a * (p + a * t) + b * (q + b * t) + c * (r + c * t) + d = s + t"
    unfolding s_def by (rule unit_shift [OF u])
  have "\<lparr>x = p + a * t - a * (s + t), y = q + b * t - b * (s + t),
         z = r + c * t - c * (s + t)\<rparr>
        = \<lparr>x = p - a * s, y = q - b * s, z = r - c * s\<rparr>"
    by (simp add: algebra_simps)
  then show ?thesis
    unfolding moved unfolding pl pt project_eval s' unfolding s_def .
qed

lemma moved_distance_squared:
  fixes a :: real
  assumes u: "a * a + b * b + c * c = 1"
    and on: "a * f + b * g + c * h + d = 0"
  shows "(f - (p + a * t)) * (f - (p + a * t)) + (g - (q + b * t)) * (g - (q + b * t))
         + (h - (r + c * t)) * (h - (r + c * t))
       = (f - p) * (f - p) + (g - q) * (g - q) + (h - r) * (h - r)
         + 2 * t * (a * p + b * q + c * r + d) + t * t"
proof -
  have "(f - (p + a * t)) * (f - (p + a * t)) + (g - (q + b * t)) * (g - (q + b * t))
         + (h - (r + c * t)) * (h - (r + c * t))
       = (f - p) * (f - p) + (g - q) * (g - q) + (h - r) * (h - r)
         + 2 * t * ((a * p + b * q + c * r + d) - (a * f + b * g + c * h + d))
         + t * t * (a * a + b * b + c * c)"
    by (simp add: algebra_simps)
  then show ?thesis
    by (simp only: u on mult_1_right diff_0_right)
qed

lemma moved_distance_greater:
  assumes unit: "Cartesian3_magnitude (normal plane) = 1"
    and on: "onPlane plane F"
    and out: "0 < Plane_getPointDistance plane point"
    and t: "0 < t"
  shows "Cartesian3_distance F point
         < Cartesian3_distance F
             (Cartesian3_add point (Cartesian3_multiplyByScalar (normal plane) t))"
proof -
  obtain a b c d where pl: "plane = \<lparr>normal = \<lparr>x = a, y = b, z = c\<rparr>, distance = d\<rparr>"
    by (rule plane_cases)
  obtain p q r where pt: "point = \<lparr>x = p, y = q, z = r\<rparr>" by (rule vector_cases)
  obtain f g h where F: "F = \<lparr>x = f, y = g, z = h\<rparr>" by (rule vector_cases)
  have u: "a * a + b * b + c * c = 1" using unit by (simp add: pl unit_components)
  have o: "a * f + b * g + c * h + d = 0" using on unfolding pl F onPlane_components .
  have s: "0 < a * p + b * q + c * r + d" using out unfolding pl pt plane_dist_eval .
  have moved: "Cartesian3_add point (Cartesian3_multiplyByScalar (normal plane) t)
               = \<lparr>x = p + a * t, y = q + b * t, z = r + c * t\<rparr>"
    by (simp add: pl pt vec_eval)
  have "0 < 2 * t * (a * p + b * q + c * r + d) + t * t"
    using s t by (simp add: add_pos_pos)
  then have "(f - p) * (f - p) + (g - q) * (g - q) + (h - r) * (h - r)
        < (f - (p + a * t)) * (f - (p + a * t)) + (g - (q + b * t)) * (g - (q + b * t))
         + (h - (r + c * t)) * (h - (r + c * t))"
    unfolding moved_distance_squared [OF u o] by linarith
  then show ?thesis
    unfolding moved unfolding F pt v_dist by (simp only: real_sqrt_less_iff)
qed

lemma box_selected_above:
  "selectedPlaneIndices (selectPlanes box \<lparr>x = 1 / 2, y = 1 / 2, z = 2\<rparr>) = [0]"
  "selectedPlaneIndices (selectPlanes box \<lparr>x = 1 / 2, y = 1 / 2, z = 3\<rparr>) = [0]"
  by (simp_all add: selected_char violated_eval box_planes_eq boxPlanes_def del: One_nat_def)

lemma box_top_face:
  "faceVertices (this_vertices box) 0 =
     [\<lparr>x = 0, y = 0, z = 1\<rparr>, \<lparr>x = 1, y = 0, z = 1\<rparr>,
      \<lparr>x = 1, y = 1, z = 1\<rparr>, \<lparr>x = 0, y = 1, z = 1\<rparr>]"
  "this_edgeNormals box ! 0 =
     [\<lparr>x = 0, y = - 1, z = 0\<rparr>, \<lparr>x = 1, y = 0, z = 0\<rparr>,
      \<lparr>x = 0, y = 1, z = 0\<rparr>, \<lparr>x = - 1, y = 0, z = 0\<rparr>]"
  "this_boundingPlanes box ! 0 = \<lparr>normal = \<lparr>x = 0, y = 0, z = 1\<rparr>, distance = - 1\<rparr>"
  by (simp_all add: box_def boxPlanes_def faceVertices_list)

lemma box_distance_above:
  "distanceToCamera box \<lparr>x = 1 / 2, y = 1 / 2, z = 2\<rparr> = Inr 1"
  "distanceToCamera box \<lparr>x = 1 / 2, y = 1 / 2, z = 3\<rparr> = Inr 2"
  unfolding distanceToCamera_one [OF box_selected_above(1)]
    distanceToCamera_one [OF box_selected_above(2)] box_top_face project_eval
  by (simp_all add: closestPointPolygon_def upt_rec edge_plane_eval distanceToFacePoint_def
      v_dist Let_def)

lemma exactly_one_selected:
  assumes k: "k < 6" and one: "\<forall>j<6. violated this point j \<longleftrightarrow> j = k"
  shows "selectedPlaneIndices (selectPlanes this point) = [k]"
proof -
  from one have v: "violated this point 0 \<longleftrightarrow> 0 = k" "violated this point 1 \<longleftrightarrow> 1 = k"
    "violated this point 2 \<longleftrightarrow> 2 = k" "violated this point 3 \<longleftrightarrow> 3 = k"
    "violated this point 4 \<longleftrightarrow> 4 = k" "violated this point 5 \<longleftrightarrow> 5 = k"
    by (simp_all only: all_less_6)
  from k consider "k = 0" | "k = 1" | "k = 2" | "k = 3" | "k = 4" | "k = 5"
    by linarith
  then show ?thesis
    by cases (simp_all add: selected_char v del: One_nat_def)
qed

lemma single_plane_outward_motion:
  assumes planes: "this_boundingPlanes this = planes"
    and built: "computeFaceData planes = Inr (this_vertices this, this_edgeNormals this)"
    and unit: "\<forall>j<6. Cartesian3_magnitude (normal (planes ! j)) = 1"
    and det: "\<forall>i<4.
        Matrix3_determinant (normalMatrix (planes ! 0) (planes ! (2 + ((i + 3) mod 4)))
                               (planes ! (2 + i mod 4))) \<noteq> 0
      \<and> Matrix3_determinant (normalMatrix (planes ! 1) (planes ! (2 + ((i + 3) mod 4)))
                               (planes ! (2 + i mod 4))) \<noteq> 0"
    and sel: "selectedPlaneIndices (selectPlanes this point) = [k]"
    and t: "0 < t"
    and sel': "selectedPlaneIndices
                 (selectPlanes this
                    (Cartesian3_add point (Cartesian3_multiplyByScalar (normal (planes ! k)) t)))
               = [k]"
  shows "\<exists>d d'. distanceToCamera this point = Inr d
           \<and> distanceToCamera this
                (Cartesian3_add point (Cartesian3_multiplyByScalar (normal (planes ! k)) t))
              = Inr d'
           \<and> d < d'"
proof -
  let ?plane = "planes ! k"
  let ?moved = "Cartesian3_add point (Cartesian3_multiplyByScalar (normal ?plane) t)"
  let ?face = "faceVertices (this_vertices this) k"
  let ?ens = "this_edgeNormals this ! k"
  let ?rot = "if k = 1 then 1 else - 1 :: real"
  let ?p = "Plane_projectPointOntoPlane ?plane point"
  note fields = planes built_fields [OF built]
  from single_selection_locals [OF sel] have k: "k < 6" and viol: "violated this point k"
    by blast+
  have u: "Cartesian3_magnitude (normal ?plane) = 1" using unit k by blast
  have face_on: "list_all (onPlane ?plane) ?face"
    unfolding fields(2) by (rule face_vertices_onPlane [OF unit det k])
  have face_len: "length ?face = 4"
    unfolding fields(2) by (rule faceVertices_length [OF computeVertices_length])
  have ens_len: "length ?ens = 4" by (rule fields(3) [OF k])
  have p_on: "onPlane ?plane ?p" by (rule project_onPlane [OF u])
  from closestPointPolygon_onPlane [OF face_len face_on ens_len p_on, of ?plane ?rot]
  obtain F where F: "closestPointPolygon ?p ?face ?plane (NormalArray ?ens) ?rot = Inr F"
    and F_on: "onPlane ?plane F"
    by blast
  have d: "distanceToCamera this point = Inr (Cartesian3_distance F point)"
    unfolding distanceToCamera_one [OF sel] fields(1) F by (simp add: distanceToFacePoint_def)
  have d': "distanceToCamera this ?moved = Inr (Cartesian3_distance F ?moved)"
    unfolding distanceToCamera_one [OF sel'] fields(1) project_moved [OF u] F
    by (simp add: distanceToFacePoint_def)
  have "EPSILON14 < Plane_getPointDistance ?plane point"
    using viol by (simp add: violated_def CesiumMath_greaterThan_def fields(1))
  moreover have "0 < EPSILON14" by (simp add: EPSILON14_def)
  ultimately have out: "0 < Plane_getPointDistance ?plane point" by linarith
  have "Cartesian3_distance F point < Cartesian3_distance F ?moved"
    by (rule moved_distance_greater [OF u F_on out t])
  with d d' show ?thesis by blast
qed

lemma fresh_tile_fields:
  assumes "newTileBoundingS2Cell s2Cell minimumHeight maximumHeight ellipsoid m = (Inr obj, m')"
  shows "computeBoundingPlanes s2Cell minimumHeight maximumHeight ellipsoid
           = Inr (this_boundingPlanes (readTile m' obj))"
    and "computeFaceData (this_boundingPlanes (readTile m' obj))
           = Inr (this_vertices (readTile m' obj), this_edgeNormals (readTile m' obj))"
proof -
  from assms obtain refs vs ns where
    shared: "computeBoundingPlanesShared s2Cell minimumHeight maximumHeight ellipsoid m
               = (Inr refs, m')"
    and faces: "computeFaceData (map (dereference m') refs) = Inr (vs, ns)"
    and obj: "obj = \<lparr>object_boundingPlanes = refs, object_vertices = vs,
                     object_edgeNormals = ns\<rparr>"
    by (auto simp: newTileBoundingS2Cell_def split: prod.splits sum.splits)
  have read: "readTile m' obj = \<lparr>this_boundingPlanes = map (dereference m') refs,
               this_vertices = vs, this_edgeNormals = ns\<rparr>"
    by (simp add: readTile_def obj)
  from shared have "computeBoundingPlanes s2Cell minimumHeight maximumHeight ellipsoid
           = Inr (map (dereference m') refs)"
    by (auto simp: computeBoundingPlanesShared_def computeBoundingPlanes_def Let_def comp_def
        split: sum.splits)
  then show "computeBoundingPlanes s2Cell minimumHeight maximumHeight ellipsoid
           = Inr (this_boundingPlanes (readTile m' obj))"
    by (simp add: read)
  show "computeFaceData (this_boundingPlanes (readTile m' obj))
           = Inr (this_vertices (readTile m' obj), this_edgeNormals (readTile m' obj))"
    using faces by (simp add: read)
qed

text \<open>
  Right after its construction, before any other tile is constructed, a tile with unit
  normals and non-degenerate vertex triples has the monotonicity: moving the query point
  outward along the only violated plane's normal increases the distance.
\<close>

lemma fresh_tile_outward_motion:
  assumes new: "newTileBoundingS2Cell s2Cell minimumHeight maximumHeight ellipsoid m
                  = (Inr obj, m')"
    and unit: "\<forall>j<6. Cartesian3_magnitude
                        (normal (this_boundingPlanes (readTile m' obj) ! j)) = 1"
    and det: "\<forall>i<4.
        Matrix3_determinant (normalMatrix (this_boundingPlanes (readTile m' obj) ! 0)
           (this_boundingPlanes (readTile m' obj) ! (2 + ((i + 3) mod 4)))
           (this_boundingPlanes (readTile m' obj) ! (2 + i mod 4))) \<noteq> 0
      \<and> Matrix3_determinant (normalMatrix (this_boundingPlanes (readTile m' obj) ! 1)
           (this_boundingPlanes (readTile m' obj) ! (2 + ((i + 3) mod 4)))
           (this_boundingPlanes (readTile m' obj) ! (2 + i mod 4))) \<noteq> 0"
    and k: "k < 6"
    and one: "\<forall>j<6. violated (readTile m' obj) point j \<longleftrightarrow> j = k"
    and t: "0 < t"
    and one': "\<forall>j<6. violated (readTile m' obj)
                 (Cartesian3_add point
                    (Cartesian3_multiplyByScalar
                       (normal (this_boundingPlanes (readTile m' obj) ! k)) t)) j
               \<longleftrightarrow> j = k"
  shows "\<exists>d d'. distanceToCamera (readTile m' obj) point = Inr d
           \<and> distanceToCamera (readTile m' obj)
                (Cartesian3_add point
                   (Cartesian3_multiplyByScalar
                      (normal (this_boundingPlanes (readTile m' obj) ! k)) t))
              = Inr d'
           \<and> d < d'"
  by (rule single_plane_outward_motion
      [OF refl fresh_tile_fields(2) [OF new] unit det exactly_one_selected [OF k one] t
          exactly_one_selected [OF k one']])

section \<open>A tile after a later construction\<close>

lemma sqrt_below_MAX_VALUE: "a \<le> 1 \<Longrightarrow> sqrt a < Number_MAX_VALUE"
proof -
  assume "a \<le> 1"
  then have "sqrt a \<le> sqrt 1" by (simp only: real_sqrt_le_iff)
  then have "sqrt a \<le> 1" by (simp only: real_sqrt_one)
  then show ?thesis using Number_MAX_VALUE_gt_1 by linarith
qed

lemma overwritten_box_fields:
  "this_boundingPlanes (readTile tiltedModule boxObject) =
     [\<lparr>normal = \<lparr>x = 3 / 5, y = 0, z = 4 / 5\<rparr>, distance = 0\<rparr>,
      \<lparr>normal = \<lparr>x = - (3 / 5), y = 0, z = - (4 / 5)\<rparr>, distance = - (11 / 10)\<rparr>,
      \<lparr>normal = \<lparr>x = 0, y = - 1, z = 0\<rparr>, distance = 0\<rparr>,
      \<lparr>normal = \<lparr>x = 1, y = 0, z = 0\<rparr>, distance = - 1\<rparr>,
      \<lparr>normal = \<lparr>x = 0, y = 1, z = 0\<rparr>, distance = - 1\<rparr>,
      \<lparr>normal = \<lparr>x = - 1, y = 0, z = 0\<rparr>, distance = 0\<rparr>]"
  "this_vertices (readTile tiltedModule boxObject) = this_vertices box"
  "this_edgeNormals (readTile tiltedModule boxObject) = this_edgeNormals box"
  by (simp_all add: readTile_def boxObject_def tiltedModule_def)

lemma overwritten_box_selected:
  "selectedPlaneIndices
     (selectPlanes (readTile tiltedModule boxObject) \<lparr>x = 1 / 10, y = 1 / 2, z = 1 / 2\<rparr>) = [0]"
  "selectedPlaneIndices
     (selectPlanes (readTile tiltedModule boxObject) \<lparr>x = 4 / 25, y = 1 / 2, z = 29 / 50\<rparr>) = [0]"
  by (simp_all add: selected_char violated_eval overwritten_box_fields del: One_nat_def)

lemma overwritten_box_distance:
  "distanceToCamera (readTile tiltedModule boxObject) \<lparr>x = 1 / 10, y = 1 / 2, z = 1 / 2\<rparr>
     = Inr (sqrt (13 / 50))"
  "distanceToCamera (readTile tiltedModule boxObject) \<lparr>x = 4 / 25, y = 1 / 2, z = 29 / 50\<rparr>
     = Inr (sqrt (101 / 500))"
  unfolding distanceToCamera_one [OF overwritten_box_selected(1)]
    distanceToCamera_one [OF overwritten_box_selected(2)] overwritten_box_fields box_top_face
  by (simp_all add: overwritten_box_fields(1) project_eval closestPointPolygon_def upt_rec
      edge_plane_eval segment_eval distanceToFacePoint_def v_dist Let_def sqrt_below_MAX_VALUE)

section \<open>Claims\<close>

text \<open>
  C7. A query point whose signed distance to each of the six bounding planes is at most
  the tolerance selects no plane, and \<open>distanceToCamera\<close> returns exactly 0.
\<close>

theorem distanceToCamera_inside:
  assumes "\<forall>k<6. Plane_getPointDistance (this_boundingPlanes this ! k) point \<le> EPSILON14"
  shows "distanceToCamera this point = Inr 0"
proof -
  have nv: "\<not> violated this point k" if "k < 6" for k
    using assms that by (simp add: violated_def CesiumMath_greaterThan_def not_less)
  have "selectedPlaneIndices (selectPlanes this point) = []"
    by (simp add: selected_char nv)
  then show ?thesis
    by (simp add: distanceToCamera_def Let_def)
qed

theorem distanceToCamera_inside_witness:
  "list_all (\<lambda>k. Plane_getPointDistance (this_boundingPlanes box ! k)
                    \<lparr>x = 1 / 2, y = 1 / 2, z = 1 / 2\<rparr> \<le> EPSILON14) [0, 1, 2, 3, 4, 5]
   \<and> distanceToCamera box \<lparr>x = 1 / 2, y = 1 / 2, z = 1 / 2\<rparr> = Inr 0"
proof -
  have h: "\<forall>k<6. Plane_getPointDistance (this_boundingPlanes box ! k)
              \<lparr>x = 1 / 2, y = 1 / 2, z = 1 / 2\<rparr> \<le> EPSILON14"
    by (simp add: all_less_6 box_def boxPlanes_def plane_dist_eval EPSILON14_def)
  show ?thesis
    using h distanceToCamera_inside [OF h] by (simp add: all_less_6)
qed

text \<open>
  C4. \<open>intersectPlane\<close> returns INSIDE exactly when all 8 stored vertices have signed
  distance \<open>dot(plane.normal, vertex) + plane.distance \<ge> 0\<close> (zero counts for the
  normal side), OUTSIDE exactly when all 8 have signed distance below 0, and INTERSECTING
  in every other case.
\<close>

theorem intersectPlane_classification:
  assumes "length (this_vertices this) = 8"
  shows "(intersectPlane this plane = INSIDE \<longleftrightarrow>
            (\<forall>i<8. Cartesian3_dot (normal plane) (this_vertices this ! i) + distance plane \<ge> 0))
       \<and> (intersectPlane this plane = OUTSIDE \<longleftrightarrow>
            (\<forall>i<8. Cartesian3_dot (normal plane) (this_vertices this ! i) + distance plane < 0))
       \<and> (intersectPlane this plane = INTERSECTING \<longleftrightarrow>
            \<not> (\<forall>i<8. Cartesian3_dot (normal plane) (this_vertices this ! i) + distance plane \<ge> 0)
          \<and> \<not> (\<forall>i<8. Cartesian3_dot (normal plane) (this_vertices this ! i) + distance plane < 0))"
proof -
  let ?d = "\<lambda>i. Cartesian3_dot (normal plane) (this_vertices this ! i) + distance plane"
  let ?n = "length (this_vertices this)"
  have plus: "length (filter (\<lambda>i. \<not> ?d i < 0) [0..<?n]) = ?n \<longleftrightarrow> (\<forall>i<8. ?d i \<ge> 0)"
    using length_filter_eq_iff [of "\<lambda>i. \<not> ?d i < 0" "[0..<?n]"] assms
    by (auto simp: not_less)
  have neg: "length (filter (\<lambda>i. ?d i < 0) [0..<?n]) = ?n \<longleftrightarrow> (\<forall>i<8. ?d i < 0)"
    using length_filter_eq_iff [of "\<lambda>i. ?d i < 0" "[0..<?n]"] assms
    by auto
  have excl: "\<not> ((\<forall>i<8. ?d i \<ge> 0) \<and> (\<forall>i<8. ?d i < 0))"
    by (metis not_less zero_less_numeral)
  show ?thesis
    unfolding intersectPlane_def countSides_eq
    using plus neg excl by auto
qed

theorem intersectPlane_classification_witness:
  "length (this_vertices box) = 8
   \<and> intersectPlane box \<lparr>normal = \<lparr>x = 0, y = 0, z = 1\<rparr>, distance = 0\<rparr> = INSIDE
   \<and> intersectPlane box \<lparr>normal = \<lparr>x = 0, y = 0, z = 1\<rparr>, distance = - 2\<rparr> = OUTSIDE
   \<and> intersectPlane box \<lparr>normal = \<lparr>x = 0, y = 0, z = 1\<rparr>, distance = - 1\<rparr>
       = INTERSECTING
   \<and> intersectPlane box \<lparr>normal = \<lparr>x = 0, y = 0, z = - 1\<rparr>, distance = 1\<rparr> = INSIDE"
proof -
  have h: "length (this_vertices box) = 8"
    by (simp add: box_vertices_eq)
  show ?thesis
    using h
      intersectPlane_classification [OF h, of "\<lparr>normal = \<lparr>x = 0, y = 0, z = 1\<rparr>, distance = 0\<rparr>"]
      intersectPlane_classification [OF h, of "\<lparr>normal = \<lparr>x = 0, y = 0, z = 1\<rparr>, distance = - 2\<rparr>"]
      intersectPlane_classification [OF h, of "\<lparr>normal = \<lparr>x = 0, y = 0, z = 1\<rparr>, distance = - 1\<rparr>"]
      intersectPlane_classification [OF h, of "\<lparr>normal = \<lparr>x = 0, y = 0, z = - 1\<rparr>, distance = 1\<rparr>"]
    by (simp add: all_less_8 box_vertices_eq v_dot)
qed

text \<open>
  C8. For distinct endpoints \<open>l0\<close> and \<open>l1\<close>, \<open>closestPointLineSegment p l0 l1\<close> is
  the point \<open>l0 + t * (l1 - l0)\<close> with \<open>t = dot(p - l0, l1 - l0) / |l1 - l0|^2\<close>
  clamped to \<open>[0, 1]\<close>; no point of the closed segment is nearer to \<open>p\<close>, and a point of
  the segment at the same distance is that point.
\<close>

theorem closestPointLineSegment_minimizes:
  assumes "l0 \<noteq> l1"
  shows "closestPointLineSegment p l0 l1 = segmentPoint l0 l1 (clampedParameter p l0 l1)
       \<and> 0 \<le> clampedParameter p l0 l1 \<and> clampedParameter p l0 l1 \<le> 1
       \<and> (\<forall>s. 0 \<le> s \<and> s \<le> 1 \<longrightarrow>
             Cartesian3_distance p (closestPointLineSegment p l0 l1)
             \<le> Cartesian3_distance p (segmentPoint l0 l1 s))
       \<and> (\<forall>s. 0 \<le> s \<and> s \<le> 1
             \<and> Cartesian3_distance p (segmentPoint l0 l1 s)
               = Cartesian3_distance p (closestPointLineSegment p l0 l1) \<longrightarrow>
             segmentPoint l0 l1 s = closestPointLineSegment p l0 l1)"
proof -
  let ?d = "Cartesian3_subtract l1 l0"
  let ?T = "Cartesian3_dot ?d (Cartesian3_subtract p l0)"
  let ?D = "Cartesian3_magnitudeSquared ?d"
  let ?B = "Cartesian3_magnitudeSquared (Cartesian3_subtract p l0)"
  let ?c = "clampedParameter p l0 l1"
  have "?D \<noteq> 0" using assms magnitudeSquared_zero_iff [of l1 l0] by auto
  then have D: "0 < ?D" using magnitudeSquared_nonneg [of ?d] by linarith
  have c: "?c = max 0 (min 1 (?T / ?D))"
    by (simp add: clampedParameter_def dot_commute)
  have eq: "closestPointLineSegment p l0 l1 = segmentPoint l0 l1 ?c"
    by (rule closestPointLineSegment_clamped [OF assms])
  have range: "0 \<le> ?c" "?c \<le> 1" by (simp_all add: clampedParameter_def)
  have dist: "Cartesian3_distance p (segmentPoint l0 l1 s)
              = sqrt (?B - 2 * s * ?T + s * s * ?D)" for s
    by (simp add: Cartesian3_distance_def Cartesian3_magnitude_def segment_distance_squared)
  have le: "Cartesian3_distance p (segmentPoint l0 l1 ?c)
            \<le> Cartesian3_distance p (segmentPoint l0 l1 s)" if "0 \<le> s" "s \<le> 1" for s
    unfolding dist c using quadratic_clamped_minimum(1) [OF D that, of ?B ?T] by simp
  have uniq: "segmentPoint l0 l1 s = segmentPoint l0 l1 ?c"
    if "0 \<le> s" "s \<le> 1"
       "Cartesian3_distance p (segmentPoint l0 l1 s) = Cartesian3_distance p (segmentPoint l0 l1 ?c)"
    for s
  proof -
    have "?B - 2 * s * ?T + s * s * ?D = ?B - 2 * ?c * ?T + ?c * ?c * ?D"
      using that(3) unfolding dist by simp
    then have "s = ?c"
      unfolding c using quadratic_clamped_minimum(2) [OF D that(1,2), of ?B ?T] by simp
    then show ?thesis by simp
  qed
  show ?thesis
    using eq range le uniq by simp
qed

theorem closestPointLineSegment_minimizes_witness:
  "\<lparr>x = 0, y = 0, z = 0\<rparr> \<noteq> \<lparr>x = 1, y = 0, z = 0\<rparr>
   \<and> closestPointLineSegment \<lparr>x = 1 / 2, y = - 3, z = - 4\<rparr>
         \<lparr>x = 0, y = 0, z = 0\<rparr> \<lparr>x = 1, y = 0, z = 0\<rparr>
       = segmentPoint \<lparr>x = 0, y = 0, z = 0\<rparr> \<lparr>x = 1, y = 0, z = 0\<rparr> (1 / 2)
   \<and> Cartesian3_distance \<lparr>x = 1 / 2, y = - 3, z = - 4\<rparr>
         (closestPointLineSegment \<lparr>x = 1 / 2, y = - 3, z = - 4\<rparr>
            \<lparr>x = 0, y = 0, z = 0\<rparr> \<lparr>x = 1, y = 0, z = 0\<rparr>)
       \<le> Cartesian3_distance \<lparr>x = 1 / 2, y = - 3, z = - 4\<rparr>
           (segmentPoint \<lparr>x = 0, y = 0, z = 0\<rparr> \<lparr>x = 1, y = 0, z = 0\<rparr> 1)"
proof -
  have h: "\<lparr>x = 0, y = 0, z = 0\<rparr> \<noteq> \<lparr>x = 1, y = 0, z = (0::real)\<rparr>"
    by simp
  have c: "clampedParameter \<lparr>x = 1 / 2, y = - 3, z = - 4\<rparr>
             \<lparr>x = 0, y = 0, z = 0\<rparr> \<lparr>x = 1, y = 0, z = 0\<rparr> = 1 / 2"
    by (simp add: clampedParameter_def vec_eval Cartesian3_magnitudeSquared_def)
  note T = closestPointLineSegment_minimizes [OF h, of "\<lparr>x = 1 / 2, y = - 3, z = - 4\<rparr>"]
  from T have e: "closestPointLineSegment \<lparr>x = 1 / 2, y = - 3, z = - 4\<rparr>
         \<lparr>x = 0, y = 0, z = 0\<rparr> \<lparr>x = 1, y = 0, z = 0\<rparr>
       = segmentPoint \<lparr>x = 0, y = 0, z = 0\<rparr> \<lparr>x = 1, y = 0, z = 0\<rparr> (1 / 2)"
    by (simp only: c)
  from T have "(0::real) \<le> 1 \<and> (1::real) \<le> 1 \<longrightarrow>
       Cartesian3_distance \<lparr>x = 1 / 2, y = - 3, z = - 4\<rparr>
         (closestPointLineSegment \<lparr>x = 1 / 2, y = - 3, z = - 4\<rparr>
            \<lparr>x = 0, y = 0, z = 0\<rparr> \<lparr>x = 1, y = 0, z = 0\<rparr>)
       \<le> Cartesian3_distance \<lparr>x = 1 / 2, y = - 3, z = - 4\<rparr>
           (segmentPoint \<lparr>x = 0, y = 0, z = 0\<rparr> \<lparr>x = 1, y = 0, z = 0\<rparr> 1)"
    by blast
  then have l: "Cartesian3_distance \<lparr>x = 1 / 2, y = - 3, z = - 4\<rparr>
         (closestPointLineSegment \<lparr>x = 1 / 2, y = - 3, z = - 4\<rparr>
            \<lparr>x = 0, y = 0, z = 0\<rparr> \<lparr>x = 1, y = 0, z = 0\<rparr>)
       \<le> Cartesian3_distance \<lparr>x = 1 / 2, y = - 3, z = - 4\<rparr>
           (segmentPoint \<lparr>x = 0, y = 0, z = 0\<rparr> \<lparr>x = 1, y = 0, z = 0\<rparr> 1)"
    by simp
  from h e l show ?thesis by (intro conjI)
qed

text \<open>
  C5. For three planes with unit normals whose normal matrix has a nonzero determinant,
  \<open>computeIntersection\<close> returns a point on all three planes, the only such point, and
  it is the value of the closed form of the spec.
\<close>

theorem computeIntersection_solves:
  assumes unit: "Cartesian3_magnitude (normal p0) = 1" "Cartesian3_magnitude (normal p1) = 1"
      "Cartesian3_magnitude (normal p2) = 1"
    and det: "Matrix3_determinant (normalMatrix p0 p1 p2) \<noteq> 0"
  shows "Plane_getPointDistance p0 (computeIntersection p0 p1 p2) = 0
       \<and> Plane_getPointDistance p1 (computeIntersection p0 p1 p2) = 0
       \<and> Plane_getPointDistance p2 (computeIntersection p0 p1 p2) = 0
       \<and> (\<forall>v. Plane_getPointDistance p0 v = 0 \<and> Plane_getPointDistance p1 v = 0
              \<and> Plane_getPointDistance p2 v = 0 \<longrightarrow> v = computeIntersection p0 p1 p2)
       \<and> computeIntersection p0 p1 p2 = intersectionFormula p0 p1 p2"
  by (rule computeIntersection_cramer [OF assms])

theorem computeIntersection_solves_witness:
  "Cartesian3_magnitude (normal (boxPlanes ! 0)) = 1
   \<and> Cartesian3_magnitude (normal (boxPlanes ! 5)) = 1
   \<and> Cartesian3_magnitude (normal (boxPlanes ! 2)) = 1
   \<and> Matrix3_determinant (normalMatrix (boxPlanes ! 0) (boxPlanes ! 5) (boxPlanes ! 2)) \<noteq> 0
   \<and> computeIntersection (boxPlanes ! 0) (boxPlanes ! 5) (boxPlanes ! 2)
       = \<lparr>x = 0, y = 0, z = 1\<rparr>
   \<and> Plane_getPointDistance (boxPlanes ! 0)
         (computeIntersection (boxPlanes ! 0) (boxPlanes ! 5) (boxPlanes ! 2)) = 0
   \<and> Plane_getPointDistance (boxPlanes ! 5)
         (computeIntersection (boxPlanes ! 0) (boxPlanes ! 5) (boxPlanes ! 2)) = 0
   \<and> Plane_getPointDistance (boxPlanes ! 2)
         (computeIntersection (boxPlanes ! 0) (boxPlanes ! 5) (boxPlanes ! 2)) = 0"
proof -
  have u: "Cartesian3_magnitude (normal (boxPlanes ! 0)) = 1"
    "Cartesian3_magnitude (normal (boxPlanes ! 5)) = 1"
    "Cartesian3_magnitude (normal (boxPlanes ! 2)) = 1"
    by (simp_all add: boxPlanes_def v_mag)
  have d: "Matrix3_determinant (normalMatrix (boxPlanes ! 0) (boxPlanes ! 5) (boxPlanes ! 2)) \<noteq> 0"
    by (simp add: boxPlanes_def determinant_eval)
  have v: "computeIntersection (boxPlanes ! 0) (boxPlanes ! 5) (boxPlanes ! 2)
           = \<lparr>x = 0, y = 0, z = 1\<rparr>"
    by (simp add: boxPlanes_def inter_eval)
  note T = computeIntersection_solves [OF u d]
  from T have s0: "Plane_getPointDistance (boxPlanes ! 0)
         (computeIntersection (boxPlanes ! 0) (boxPlanes ! 5) (boxPlanes ! 2)) = 0"
    by (rule conjunct1)
  from T have s1: "Plane_getPointDistance (boxPlanes ! 5)
         (computeIntersection (boxPlanes ! 0) (boxPlanes ! 5) (boxPlanes ! 2)) = 0"
    by blast
  from T have s2: "Plane_getPointDistance (boxPlanes ! 2)
         (computeIntersection (boxPlanes ! 0) (boxPlanes ! 5) (boxPlanes ! 2)) = 0"
    by blast
  from u d v s0 s1 s2 show ?thesis by (intro conjI)
qed

text \<open>
  C6. Among the planes \<open>computeBoundingPlanes\<close> returns, the bottom plane has the negated
  normal of the top plane and is shifted by \<open>maxDistance\<close>; every one of the four corners
  lifted to \<open>minimumHeight\<close> has signed distance at most 0 to it; and when some lifted
  corner has non-positive signed distance to the top plane, a lifted corner of least such
  distance exists and each one lies on the bottom plane.
\<close>

theorem bottomPlane_through_lowest_corner:
  assumes ok: "computeBoundingPlanes s2Cell minimumHeight maximumHeight ellipsoid = Inr planes"
  shows "planes ! 0 = computeTopPlane s2Cell maximumHeight ellipsoid
       \<and> normal (planes ! 1) = Cartesian3_negate (normal (planes ! 0))
       \<and> (\<forall>q. Plane_getPointDistance (planes ! 1) q
               = computeMaxDistance s2Cell minimumHeight ellipsoid (planes ! 0)
                 - Plane_getPointDistance (planes ! 0) q)
       \<and> (\<forall>i<4. Plane_getPointDistance (planes ! 1)
                   (liftedCorner s2Cell minimumHeight ellipsoid i) \<le> 0)
       \<and> ((\<exists>i<4. Plane_getPointDistance (planes ! 0)
                    (liftedCorner s2Cell minimumHeight ellipsoid i) \<le> 0) \<longrightarrow>
            (\<exists>j<4. (\<forall>i<4. Plane_getPointDistance (planes ! 0)
                             (liftedCorner s2Cell minimumHeight ellipsoid j)
                           \<le> Plane_getPointDistance (planes ! 0)
                               (liftedCorner s2Cell minimumHeight ellipsoid i)))
          \<and> (\<forall>j<4. (\<forall>i<4. Plane_getPointDistance (planes ! 0)
                             (liftedCorner s2Cell minimumHeight ellipsoid j)
                           \<le> Plane_getPointDistance (planes ! 0)
                               (liftedCorner s2Cell minimumHeight ellipsoid i)) \<longrightarrow>
                Plane_getPointDistance (planes ! 1)
                  (liftedCorner s2Cell minimumHeight ellipsoid j) = 0))"
proof -
  let ?top = "planes ! 0"
  let ?c = "liftedCorner s2Cell minimumHeight ellipsoid"
  let ?d = "\<lambda>i. Plane_getPointDistance ?top (?c i)"
  let ?m = "computeMaxDistance s2Cell minimumHeight ellipsoid ?top"
  have top: "?top = computeTopPlane s2Cell maximumHeight ellipsoid"
    by (rule computeBoundingPlanes_top_bottom(1) [OF ok])
  have bottom: "planes ! 1 = computeBottomPlane s2Cell minimumHeight ellipsoid ?top"
    unfolding top by (rule computeBoundingPlanes_top_bottom(2) [OF ok])
  have n: "normal (planes ! 1) = Cartesian3_negate (normal ?top)"
    unfolding bottom by (simp add: computeBottomPlane_def Let_def)
  have shift: "Plane_getPointDistance (planes ! 1) q = ?m - Plane_getPointDistance ?top q" for q
    unfolding bottom by (rule bottomPlane_distance)
  have m0: "?m \<le> 0" by (rule computeMaxDistance_min(1))
  have mi: "?m \<le> ?d i" if "i < 4" for i by (rule computeMaxDistance_min(2) [OF that])
  have mex: "?m = 0 \<or> (\<exists>i<4. ?m = ?d i)" by (rule computeMaxDistance_min(3))
  have below: "Plane_getPointDistance (planes ! 1) (?c i) \<le> 0" if "i < 4" for i
    unfolding shift using mi [OF that] by linarith
  have minimal: "?m = ?d j" if some: "\<exists>i<4. ?d i \<le> 0" and j: "j < 4"
    and least: "\<forall>i<4. ?d j \<le> ?d i" for j
  proof -
    from some obtain k where k: "k < 4" "?d k \<le> 0" by blast
    have "?d j \<le> ?m"
    proof (rule disjE [OF mex])
      assume "?m = 0"
      then show ?thesis using least k by force
    next
      assume "\<exists>i<4. ?m = ?d i"
      then show ?thesis using least by force
    qed
    then show ?thesis using mi [OF j] by linarith
  qed
  have attained: "\<exists>j<4. \<forall>i<4. ?d j \<le> ?d i" if some: "\<exists>i<4. ?d i \<le> 0"
  proof (rule disjE [OF mex])
    assume z: "?m = 0"
    from some obtain k where k: "k < 4" "?d k \<le> 0" by blast
    have "?d k = ?m" using mi [OF k(1)] k(2) z by linarith
    then have "\<forall>i<4. ?d k \<le> ?d i" using mi by simp
    then show ?thesis using k(1) by blast
  next
    assume "\<exists>i<4. ?m = ?d i"
    then obtain k where k: "k < 4" "?m = ?d k" by blast
    then have "\<forall>i<4. ?d k \<le> ?d i" using mi by simp
    then show ?thesis using k(1) by blast
  qed
  have on: "Plane_getPointDistance (planes ! 1) (?c j) = 0"
    if "\<exists>i<4. ?d i \<le> 0" "j < 4" "\<forall>i<4. ?d j \<le> ?d i" for j
    unfolding shift using minimal [OF that] by linarith
  from top n shift below attained on show ?thesis by blast
qed

theorem bottomPlane_through_lowest_corner_witness:
  "computeBoundingPlanes squareCell 0 1 flatEllipsoid = Inr boxPlanes
   \<and> normal (boxPlanes ! 1) = Cartesian3_negate (normal (boxPlanes ! 0))
   \<and> Plane_getPointDistance (boxPlanes ! 1) (liftedCorner squareCell 0 flatEllipsoid 2) \<le> 0
   \<and> Plane_getPointDistance (boxPlanes ! 1) (liftedCorner squareCell 0 flatEllipsoid 2) = 0"
proof -
  note T = bottomPlane_through_lowest_corner [OF box_planes]
  let ?d = "\<lambda>i. Plane_getPointDistance (boxPlanes ! 0) (liftedCorner squareCell 0 flatEllipsoid i)"
  have d: "?d i = - 1" for i
    by (simp add: lifted_square_corner boxPlanes_def plane_dist_eval)
  from T have n: "normal (boxPlanes ! 1) = Cartesian3_negate (normal (boxPlanes ! 0))"
    by blast
  from T have "\<forall>i<4. Plane_getPointDistance (boxPlanes ! 1)
                   (liftedCorner squareCell 0 flatEllipsoid i) \<le> 0"
    by blast
  then have le: "Plane_getPointDistance (boxPlanes ! 1)
                   (liftedCorner squareCell 0 flatEllipsoid 2) \<le> 0"
    by simp
  have some: "\<exists>i<4. ?d i \<le> 0" using d [of 0] by (intro exI [of _ 0]) simp
  have least: "\<forall>i<4. ?d 2 \<le> ?d i" by (simp only: d) simp
  from T have "(\<exists>i<4. ?d i \<le> 0) \<longrightarrow>
       (\<forall>j<4. (\<forall>i<4. ?d j \<le> ?d i) \<longrightarrow>
             Plane_getPointDistance (boxPlanes ! 1)
               (liftedCorner squareCell 0 flatEllipsoid j) = 0)"
    by blast
  with some least have on: "Plane_getPointDistance (boxPlanes ! 1)
               (liftedCorner squareCell 0 flatEllipsoid 2) = 0"
    by simp
  from box_planes n le on show ?thesis by (intro conjI)
qed

text \<open>
  C10. With exactly three planes selected and the top plane not among them,
  \<open>distanceToCamera\<close> returns the distance to \<open>vertices[4 + ((i0 + 1) % 4)]\<close> for the
  first selected index \<open>i0\<close>. When the bottom plane is selected, \<open>i0 = 1\<close> and the vertex
  is \<open>vertices[6]\<close>, whichever side planes are selected; when three side planes are
  selected, \<open>i0\<close> is the index of the first violated side plane.
\<close>

theorem three_selected_without_top:
  assumes three: "length (selectedPlaneIndices (selectPlanes this point)) = 3"
    and notop: "0 \<notin> set (selectedPlaneIndices (selectPlanes this point))"
  shows "distanceToCamera this point =
           Inr (Cartesian3_distance point
                  (this_vertices this !
                     (4 + ((selectedPlaneIndices (selectPlanes this point) ! 0 + 1) mod 4))))
       \<and> (1 \<in> set (selectedPlaneIndices (selectPlanes this point)) \<longrightarrow>
            selectedPlaneIndices (selectPlanes this point) ! 0 = 1
            \<and> distanceToCamera this point =
                Inr (Cartesian3_distance point (this_vertices this ! 6)))
       \<and> (1 \<notin> set (selectedPlaneIndices (selectPlanes this point)) \<longrightarrow>
            2 \<le> selectedPlaneIndices (selectPlanes this point) ! 0
            \<and> selectedPlaneIndices (selectPlanes this point) ! 0 \<le> 3
            \<and> violated this point (selectedPlaneIndices (selectPlanes this point) ! 0)
            \<and> (\<forall>k. 2 \<le> k \<and> k < selectedPlaneIndices (selectPlanes this point) ! 0 \<longrightarrow>
                   \<not> violated this point k))"
proof -
  let ?sel = "selectedPlaneIndices (selectPlanes this point)"
  have v0: "\<not> violated this point 0" using notop by (simp add: selected_top)
  have "?sel ! 0 \<in> set ?sel" using three by (simp add: nth_mem)
  then have first: "?sel ! 0 \<noteq> 0" using notop by metis
  have main: "distanceToCamera this point =
           Inr (Cartesian3_distance point (this_vertices this ! (4 + ((?sel ! 0 + 1) mod 4))))"
    using first by (simp add: distanceToCamera_three [OF three])
  have bottom: "?sel ! 0 = 1 \<and> distanceToCamera this point =
                Inr (Cartesian3_distance point (this_vertices this ! 6))"
    if "1 \<in> set ?sel"
  proof -
    have "violated this point 1" using that selected_bottom by blast
    then have "?sel ! 0 = 1" using v0 by (simp add: selected_char)
    then show ?thesis using main by simp
  qed
  have sides: "2 \<le> ?sel ! 0 \<and> ?sel ! 0 \<le> 3 \<and> violated this point (?sel ! 0)
            \<and> (\<forall>k. 2 \<le> k \<and> k < ?sel ! 0 \<longrightarrow> \<not> violated this point k)"
    if "1 \<notin> set ?sel"
  proof -
    have v1: "\<not> violated this point 1" using that v0 selected_bottom by blast
    have sel: "?sel = filter (violated this point) [2, 3, 4, 5]"
      using v0 v1 by (simp add: selected_char)
    have len: "length (filter (violated this point) [2, 3, 4, 5]) = 3"
      using three unfolding sel .
    show ?thesis
    proof (cases "violated this point 2")
      case True
      then have "?sel ! 0 = 2" by (simp add: sel)
      then show ?thesis using True by auto
    next
      case False
      with len have "violated this point 3" by (auto split: if_splits)
      with False have "?sel ! 0 = 3" by (simp add: sel)
      note \<open>?sel ! 0 = 3\<close>
      have none: "\<not> violated this point k" if "2 \<le> k \<and> k < 3" for k
      proof -
        from that have "k = 2" by linarith
        then show ?thesis using False by simp
      qed
      from \<open>?sel ! 0 = 3\<close> \<open>violated this point 3\<close> none show ?thesis by simp
    qed
  qed
  from main bottom sides show ?thesis by blast
qed

theorem three_selected_without_top_witness:
  "length (selectedPlaneIndices (selectPlanes box \<lparr>x = 2, y = - 1, z = - 1\<rparr>)) = 3
   \<and> 0 \<notin> set (selectedPlaneIndices (selectPlanes box \<lparr>x = 2, y = - 1, z = - 1\<rparr>))
   \<and> selectedPlaneIndices (selectPlanes box \<lparr>x = 2, y = - 1, z = - 1\<rparr>) ! 0 = 1
   \<and> distanceToCamera box \<lparr>x = 2, y = - 1, z = - 1\<rparr> =
       Inr (Cartesian3_distance \<lparr>x = 2, y = - 1, z = - 1\<rparr> (this_vertices box ! 6))"
proof -
  have l: "length (selectedPlaneIndices (selectPlanes box \<lparr>x = 2, y = - 1, z = - 1\<rparr>)) = 3"
    by (simp add: box_selected_bottom_side0_side1)
  have n: "0 \<notin> set (selectedPlaneIndices (selectPlanes box \<lparr>x = 2, y = - 1, z = - 1\<rparr>))"
    by (simp add: box_selected_bottom_side0_side1)
  have b: "1 \<in> set (selectedPlaneIndices (selectPlanes box \<lparr>x = 2, y = - 1, z = - 1\<rparr>))"
    by (simp add: box_selected_bottom_side0_side1)
  note T = three_selected_without_top [OF l n]
  from T b have f: "selectedPlaneIndices (selectPlanes box \<lparr>x = 2, y = - 1, z = - 1\<rparr>) ! 0 = 1"
    by blast
  from T b have d: "distanceToCamera box \<lparr>x = 2, y = - 1, z = - 1\<rparr> =
       Inr (Cartesian3_distance \<lparr>x = 2, y = - 1, z = - 1\<rparr> (this_vertices box ! 6))"
    by blast
  from l n f d show ?thesis by (intro conjI)
qed

text \<open>
  C2, at two failing inputs on the unit box. Below the box and outside side 0, the bottom
  plane and side plane 0 are selected: the stored vertices on both planes are 4 and 5, at
  distance 5 from the point, and the code measures to the segment of the top vertices 2
  and 3 instead. Outside side planes 0 and 3, the vertices on both planes are 0 and 4, at
  distance 5, and the code measures to the segment of vertices 5 and 1.
\<close>

theorem two_selected_edge_mismatch:
  "selectedPlaneIndices (selectPlanes box \<lparr>x = 1 / 2, y = - 3, z = - 4\<rparr>) = [1, 2]
   \<and> distanceToCamera box \<lparr>x = 1 / 2, y = - 3, z = - 4\<rparr> = Inr (sqrt 41)
   \<and> filter (\<lambda>i. Plane_getPointDistance (this_boundingPlanes box ! 1) (this_vertices box ! i) = 0
               \<and> Plane_getPointDistance (this_boundingPlanes box ! 2) (this_vertices box ! i) = 0)
        [0, 1, 2, 3, 4, 5, 6, 7] = [4, 5]
   \<and> Cartesian3_distance
        (closestPointLineSegment \<lparr>x = 1 / 2, y = - 3, z = - 4\<rparr>
           (this_vertices box ! 4) (this_vertices box ! 5))
        \<lparr>x = 1 / 2, y = - 3, z = - 4\<rparr> = 5
   \<and> sqrt 41 \<noteq> 5
   \<and> selectedPlaneIndices (selectPlanes box \<lparr>x = - 3, y = - 4, z = 1 / 2\<rparr>) = [2, 5]
   \<and> distanceToCamera box \<lparr>x = - 3, y = - 4, z = 1 / 2\<rparr> = Inr (sqrt 32)
   \<and> filter (\<lambda>i. Plane_getPointDistance (this_boundingPlanes box ! 2) (this_vertices box ! i) = 0
               \<and> Plane_getPointDistance (this_boundingPlanes box ! 5) (this_vertices box ! i) = 0)
        [0, 1, 2, 3, 4, 5, 6, 7] = [0, 4]
   \<and> Cartesian3_distance
        (closestPointLineSegment \<lparr>x = - 3, y = - 4, z = 1 / 2\<rparr>
           (this_vertices box ! 0) (this_vertices box ! 4))
        \<lparr>x = - 3, y = - 4, z = 1 / 2\<rparr> = 5
   \<and> sqrt 32 \<noteq> 5"
proof -
  have a: "distanceToCamera box \<lparr>x = 1 / 2, y = - 3, z = - 4\<rparr> = Inr (sqrt 41)"
    by (simp add: distanceToCamera_two [OF box_selected_bottom_side0] box_vertices_eq
        segment_eval v_dist)
  have b: "filter (\<lambda>i. Plane_getPointDistance (this_boundingPlanes box ! 1) (this_vertices box ! i) = 0
               \<and> Plane_getPointDistance (this_boundingPlanes box ! 2) (this_vertices box ! i) = 0)
        [0, 1, 2, 3, 4, 5, 6, 7] = [4, 5]"
    by (simp add: box_planes_eq boxPlanes_def box_vertices_eq plane_dist_eval)
  have c: "Cartesian3_distance
        (closestPointLineSegment \<lparr>x = 1 / 2, y = - 3, z = - 4\<rparr>
           (this_vertices box ! 4) (this_vertices box ! 5))
        \<lparr>x = 1 / 2, y = - 3, z = - 4\<rparr> = 5"
    by (simp add: box_vertices_eq segment_eval v_dist)
  have d: "distanceToCamera box \<lparr>x = - 3, y = - 4, z = 1 / 2\<rparr> = Inr (sqrt 32)"
    by (simp add: distanceToCamera_two [OF box_selected_side0_side3] box_vertices_eq
        segment_eval v_dist)
  have e: "filter (\<lambda>i. Plane_getPointDistance (this_boundingPlanes box ! 2) (this_vertices box ! i) = 0
               \<and> Plane_getPointDistance (this_boundingPlanes box ! 5) (this_vertices box ! i) = 0)
        [0, 1, 2, 3, 4, 5, 6, 7] = [0, 4]"
    by (simp add: box_planes_eq boxPlanes_def box_vertices_eq plane_dist_eval)
  have f: "Cartesian3_distance
        (closestPointLineSegment \<lparr>x = - 3, y = - 4, z = 1 / 2\<rparr>
           (this_vertices box ! 0) (this_vertices box ! 4))
        \<lparr>x = - 3, y = - 4, z = 1 / 2\<rparr> = 5"
    by (simp add: box_vertices_eq segment_eval v_dist)
  from box_selected_bottom_side0 a b c sqrt_41_neq_5 box_selected_side0_side3 d e f
    sqrt_32_neq_5
  show ?thesis by (intro conjI)
qed

text \<open>
  C3, at two failing inputs on the unit box. Above the box and outside side planes 0 and
  1, the planes 0, 2 and 3 are selected: the one stored vertex on all three is vertex 1,
  and the code measures to vertex 2. Below the box and outside the same side planes, the
  planes 1, 2 and 3 are selected: the one stored vertex on all three is vertex 5, and the
  code measures to vertex 6.
\<close>

theorem three_selected_vertex_mismatch:
  "selectedPlaneIndices (selectPlanes box \<lparr>x = 2, y = - 1, z = 2\<rparr>) = [0, 2, 3]
   \<and> distanceToCamera box \<lparr>x = 2, y = - 1, z = 2\<rparr> = Inr (sqrt 6)
   \<and> filter (\<lambda>i. Plane_getPointDistance (this_boundingPlanes box ! 0) (this_vertices box ! i) = 0
               \<and> Plane_getPointDistance (this_boundingPlanes box ! 2) (this_vertices box ! i) = 0
               \<and> Plane_getPointDistance (this_boundingPlanes box ! 3) (this_vertices box ! i) = 0)
        [0, 1, 2, 3, 4, 5, 6, 7] = [1]
   \<and> Cartesian3_distance \<lparr>x = 2, y = - 1, z = 2\<rparr> (this_vertices box ! 1) = sqrt 3
   \<and> selectedPlaneIndices (selectPlanes box \<lparr>x = 2, y = - 1, z = - 1\<rparr>) = [1, 2, 3]
   \<and> distanceToCamera box \<lparr>x = 2, y = - 1, z = - 1\<rparr> = Inr (sqrt 6)
   \<and> filter (\<lambda>i. Plane_getPointDistance (this_boundingPlanes box ! 1) (this_vertices box ! i) = 0
               \<and> Plane_getPointDistance (this_boundingPlanes box ! 2) (this_vertices box ! i) = 0
               \<and> Plane_getPointDistance (this_boundingPlanes box ! 3) (this_vertices box ! i) = 0)
        [0, 1, 2, 3, 4, 5, 6, 7] = [5]
   \<and> Cartesian3_distance \<lparr>x = 2, y = - 1, z = - 1\<rparr> (this_vertices box ! 5) = sqrt 3
   \<and> sqrt 6 \<noteq> sqrt 3"
proof -
  have l0: "length (selectedPlaneIndices (selectPlanes box \<lparr>x = 2, y = - 1, z = 2\<rparr>)) = 3"
    by (simp add: box_selected_top_side0_side1)
  have l1: "length (selectedPlaneIndices (selectPlanes box \<lparr>x = 2, y = - 1, z = - 1\<rparr>)) = 3"
    by (simp add: box_selected_bottom_side0_side1)
  have a: "distanceToCamera box \<lparr>x = 2, y = - 1, z = 2\<rparr> = Inr (sqrt 6)"
    by (simp add: distanceToCamera_three [OF l0] box_selected_top_side0_side1
        box_vertices_eq v_dist)
  have b: "filter (\<lambda>i. Plane_getPointDistance (this_boundingPlanes box ! 0) (this_vertices box ! i) = 0
               \<and> Plane_getPointDistance (this_boundingPlanes box ! 2) (this_vertices box ! i) = 0
               \<and> Plane_getPointDistance (this_boundingPlanes box ! 3) (this_vertices box ! i) = 0)
        [0, 1, 2, 3, 4, 5, 6, 7] = [1]"
    by (simp add: box_planes_eq boxPlanes_def box_vertices_eq plane_dist_eval)
  have c: "Cartesian3_distance \<lparr>x = 2, y = - 1, z = 2\<rparr> (this_vertices box ! 1) = sqrt 3"
    by (simp add: box_vertices_eq v_dist)
  have d: "distanceToCamera box \<lparr>x = 2, y = - 1, z = - 1\<rparr> = Inr (sqrt 6)"
    by (simp add: distanceToCamera_three [OF l1] box_selected_bottom_side0_side1
        box_vertices_eq v_dist)
  have e: "filter (\<lambda>i. Plane_getPointDistance (this_boundingPlanes box ! 1) (this_vertices box ! i) = 0
               \<and> Plane_getPointDistance (this_boundingPlanes box ! 2) (this_vertices box ! i) = 0
               \<and> Plane_getPointDistance (this_boundingPlanes box ! 3) (this_vertices box ! i) = 0)
        [0, 1, 2, 3, 4, 5, 6, 7] = [5]"
    by (simp add: box_planes_eq boxPlanes_def box_vertices_eq plane_dist_eval)
  have f: "Cartesian3_distance \<lparr>x = 2, y = - 1, z = - 1\<rparr> (this_vertices box ! 5) = sqrt 3"
    by (simp add: box_vertices_eq v_dist)
  from box_selected_top_side0_side1 a b c box_selected_bottom_side0_side1 d e f
    sqrt_6_neq_sqrt_3
  show ?thesis by (intro conjI)
qed

text \<open>
  C1, at a failing input on the wedge. Under the wedge and beyond side plane 1 the planes
  1, 2, 3 and 4 are selected. The code passes the first edge normal of the last selected
  side face where an array of edge normals is expected, and the first read of
  \<open>edgeNormals[i]\<close> yields \<^verbatim>\<open>undefined\<close>: the call throws. With the bottom
  face's own data, as the claim describes, the distance is \<open>sqrt 5\<close>.
\<close>

theorem more_than_three_selected_throws:
  "selectedPlaneIndices (selectPlanes wedge \<lparr>x = 2, y = 0, z = - 1\<rparr>) = [1, 2, 3, 4]
   \<and> distanceToCamera wedge \<lparr>x = 2, y = 0, z = - 1\<rparr> = Inl TypeError
   \<and> distanceToFacePoint
       (closestPointPolygon
          (Plane_projectPointOntoPlane (this_boundingPlanes wedge ! 1) \<lparr>x = 2, y = 0, z = - 1\<rparr>)
          (slice 4 8 (this_vertices wedge)) (this_boundingPlanes wedge ! 1)
          (NormalArray (this_edgeNormals wedge ! 1)) 1)
       \<lparr>x = 2, y = 0, z = - 1\<rparr> = Inr (sqrt 5)"
proof -
  have "length (selectedPlaneIndices (selectPlanes wedge \<lparr>x = 2, y = 0, z = - 1\<rparr>)) > 3"
    by (simp add: wedge_selected_below)
  then have "distanceToCamera wedge \<lparr>x = 2, y = 0, z = - 1\<rparr> = Inl TypeError"
    by (rule distanceToCamera_more_than_three)
  with wedge_selected_below wedge_bottom_expected show ?thesis by (intro conjI)
qed

text \<open>
  C9, at a failing input. The unit box is constructed, then a tile on a tilted cell. The
  second construction overwrites the two scratch planes, which are the box's planes 0 and
  1, while the box keeps its vertices and edge normals. The point \<open>(1/10, 1/2, 1/2)\<close>
  then violates plane 0 only, whose normal \<open>(3/5, 0, 4/5)\<close> is a unit vector; moved by
  \<open>1/10\<close> along that normal it still violates plane 0 only, and the distance returned
  falls from \<open>sqrt (13/50)\<close> to \<open>sqrt (101/500)\<close>. For a tile read before any later
  construction the distance grows (\<open>fresh_tile_outward_motion\<close>).
\<close>

theorem outward_motion_after_later_construction:
  "newTileBoundingS2Cell squareCell 0 1 flatEllipsoid initialModule = (Inr boxObject, boxModule)
   \<and> readTile boxModule boxObject = box
   \<and> snd (newTileBoundingS2Cell tiltedCell (- 1) 0 tiltedEllipsoid boxModule) = tiltedModule
   \<and> this_boundingPlanes (readTile tiltedModule boxObject) ! 0
       = \<lparr>normal = \<lparr>x = 3 / 5, y = 0, z = 4 / 5\<rparr>, distance = 0\<rparr>
   \<and> this_vertices (readTile tiltedModule boxObject) = this_vertices box
   \<and> this_edgeNormals (readTile tiltedModule boxObject) = this_edgeNormals box
   \<and> Cartesian3_magnitude (normal (this_boundingPlanes (readTile tiltedModule boxObject) ! 0)) = 1
   \<and> list_all (\<lambda>j. violated (readTile tiltedModule boxObject)
                     \<lparr>x = 1 / 10, y = 1 / 2, z = 1 / 2\<rparr> j \<longleftrightarrow> j = 0)
        [0, 1, 2, 3, 4, 5]
   \<and> Cartesian3_add \<lparr>x = 1 / 10, y = 1 / 2, z = 1 / 2\<rparr>
        (Cartesian3_multiplyByScalar
           (normal (this_boundingPlanes (readTile tiltedModule boxObject) ! 0)) (1 / 10))
       = \<lparr>x = 4 / 25, y = 1 / 2, z = 29 / 50\<rparr>
   \<and> list_all (\<lambda>j. violated (readTile tiltedModule boxObject)
                     \<lparr>x = 4 / 25, y = 1 / 2, z = 29 / 50\<rparr> j \<longleftrightarrow> j = 0)
        [0, 1, 2, 3, 4, 5]
   \<and> distanceToCamera (readTile tiltedModule boxObject) \<lparr>x = 1 / 10, y = 1 / 2, z = 1 / 2\<rparr>
       = Inr (sqrt (13 / 50))
   \<and> distanceToCamera (readTile tiltedModule boxObject) \<lparr>x = 4 / 25, y = 1 / 2, z = 29 / 50\<rparr>
       = Inr (sqrt (101 / 500))
   \<and> sqrt (101 / 500) < sqrt (13 / 50)"
proof -
  have plane0: "this_boundingPlanes (readTile tiltedModule boxObject) ! 0
       = \<lparr>normal = \<lparr>x = 3 / 5, y = 0, z = 4 / 5\<rparr>, distance = 0\<rparr>"
    by (simp add: overwritten_box_fields(1))
  have unit: "Cartesian3_magnitude
                (normal (this_boundingPlanes (readTile tiltedModule boxObject) ! 0)) = 1"
  proof -
    have "(3 / 5) * (3 / 5) + 0 * 0 + (4 / 5) * (4 / 5) = (1::real)" by simp
    then show ?thesis by (simp only: plane0 Plane.simps v_mag real_sqrt_one)
  qed
  have v: "list_all (\<lambda>j. violated (readTile tiltedModule boxObject)
                     \<lparr>x = 1 / 10, y = 1 / 2, z = 1 / 2\<rparr> j \<longleftrightarrow> j = 0)
        [0, 1, 2, 3, 4, 5]"
    by (simp add: violated_eval overwritten_box_fields(1) del: One_nat_def)
  have moved: "Cartesian3_add \<lparr>x = 1 / 10, y = 1 / 2, z = 1 / 2\<rparr>
        (Cartesian3_multiplyByScalar
           (normal (this_boundingPlanes (readTile tiltedModule boxObject) ! 0)) (1 / 10))
       = \<lparr>x = 4 / 25, y = 1 / 2, z = 29 / 50\<rparr>"
    by (simp add: plane0 vec_eval)
  have v': "list_all (\<lambda>j. violated (readTile tiltedModule boxObject)
                     \<lparr>x = 4 / 25, y = 1 / 2, z = 29 / 50\<rparr> j \<longleftrightarrow> j = 0)
        [0, 1, 2, 3, 4, 5]"
    by (simp add: violated_eval overwritten_box_fields(1) del: One_nat_def)
  have less: "sqrt (101 / 500) < sqrt (13 / 50 :: real)"
    by (simp add: real_sqrt_less_iff)
  from box_new [of initialModule] box_read tilted_new [of boxModule] plane0
    overwritten_box_fields(2) overwritten_box_fields(3) unit v moved v'
    overwritten_box_distance less
  show ?thesis by (intro conjI)
qed

end
